(* ===== verification/Prelude.thy ===== *)
theory Prelude
  imports Complex_Main
begin

text \<open>
  Shared vocabulary of the development: the Python errors the calculators can raise,
  the result type \<open>py_error + 'a\<close> (an exception is \<open>Inl\<close>), sequencing of fallible
  steps in source order (\<open>bindE\<close>), Python's float division that raises on a zero
  divisor (\<open>py_div\<close>), and the lemma collections the component theories extend.
  Python floats are idealised as reals: every literal denotes its decimal value,
  \<open>math.pi\<close> is \<open>pi\<close>, \<open>math.sqrt(2)\<close> is \<open>sqrt 2\<close>, and arithmetic is exact.
\<close>

section \<open>Errors and results\<close>

text \<open>
  \<open>InvalidDesignMethod\<close> is the \<open>ValueError("Invalid design method...")\<close> of every
  limit-state function; \<open>DimensionalityError\<close> is raised by pint's \<open>.to()\<close> when a
  quantity's dimension differs from the target unit's; \<open>ZeroDivisionError\<close> by a float
  division by zero; \<open>UnboundLocalError\<close> by reading a local that no branch assigned.
\<close>

datatype py_error =
    InvalidDesignMethod
  | DimensionalityError
  | ZeroDivisionError
  | UnboundLocalError

type_synonym 'a result = "py_error + 'a"

text \<open>Magnitudes in the canonical units the calculators normalise to.\<close>

type_synonym inches = real
type_synonym ksi = real
type_synonym kips = real

definition bindE :: "'e + 'a \<Rightarrow> ('a \<Rightarrow> 'e + 'b) \<Rightarrow> 'e + 'b" where
  "bindE r f = (case r of Inl e \<Rightarrow> Inl e | Inr a \<Rightarrow> f a)"

definition py_div :: "real \<Rightarrow> real \<Rightarrow> real result" where
  "py_div a b = (if b = 0 then Inl ZeroDivisionError else Inr (a / b))"

named_theorems strength_defs
  \<open>definitions of the limit-state calculators, unfolded to evaluate them\<close>

named_theorems quantity_simps
  \<open>evaluation rules for unit conversion\<close>

section \<open>Sequencing\<close>

lemma bindE_Inl [simp]: "bindE (Inl e) f = Inl e"
  by (simp add: bindE_def)

lemma bindE_Inr [simp]: "bindE (Inr a) f = f a"
  by (simp add: bindE_def)

lemma bindE_Inr_right [simp]: "bindE r Inr = r"
  by (cases r) auto

lemma bindE_eq_Inr_iff:
  "bindE r f = Inr b \<longleftrightarrow> (\<exists>a. r = Inr a \<and> f a = Inr b)"
  by (cases r) auto

lemma bindE_eq_Inl_iff:
  "bindE r f = Inl e \<longleftrightarrow> r = Inl e \<or> (\<exists>a. r = Inr a \<and> f a = Inl e)"
  by (cases r) auto

lemma bindE_assoc: "bindE (bindE r f) g = bindE r (\<lambda>a. bindE (f a) g)"
  by (cases r) auto

lemma bindE_cong [fundef_cong]:
  "r = r' \<Longrightarrow> (\<And>a. r' = Inr a \<Longrightarrow> f a = g a) \<Longrightarrow> bindE r f = bindE r' g"
  by (cases r) auto

lemma map_sum_bindE:
  "map_sum id h (bindE r f) = bindE r (\<lambda>a. map_sum id h (f a))"
  by (cases r) auto

section \<open>Float division\<close>

lemma py_div_nonzero [simp]: "b \<noteq> 0 \<Longrightarrow> py_div a b = Inr (a / b)"
  by (simp add: py_div_def)

lemma py_div_zero [simp]: "py_div a 0 = Inl ZeroDivisionError"
  by (simp add: py_div_def)

section \<open>Real arithmetic shared by the components\<close>

lemma sqrt2_half_gt_0707: "(0.707::real) < sqrt 2 / 2"
proof -
  have "(1.414::real) < sqrt 2"
    by (rule real_less_rsqrt) (simp add: power2_eq_square)
  then show ?thesis by simp
qed

lemma sqrt2_half_lt_07072: "sqrt 2 / 2 < (0.7072::real)"
proof -
  have "sqrt 2 < sqrt ((1.4144::real)\<^sup>2)"
    by (simp only: real_sqrt_less_iff) (simp add: power2_eq_square)
  then show ?thesis by simp
qed

lemma pos_mult_nonpos_iff:
  fixes c a t u :: real
  shows "0 < c \<Longrightarrow> 0 < t \<Longrightarrow> 0 < u \<Longrightarrow> c * (a * t * u) \<le> 0 \<longleftrightarrow> a \<le> 0"
  by (simp add: mult_le_0_iff zero_less_mult_iff)

lemma pos_mult_le_iff:
  fixes c a b t u :: real
  shows "0 < c \<Longrightarrow> 0 < t \<Longrightarrow> 0 < u \<Longrightarrow> c * (a * t * u) \<le> c * (b * t * u) \<longleftrightarrow> a \<le> b"
  by (simp add: mult.assoc)

lemma pos_mult_nonneg_mono:
  fixes c a b t u :: real
  shows "0 \<le> c \<Longrightarrow> 0 \<le> t \<Longrightarrow> 0 \<le> u \<Longrightarrow> a \<le> b \<Longrightarrow> c * (a * t * u) \<le> c * (b * t * u)"
  by (simp add: mult_left_mono mult_right_mono)

end
