(* ===== verification/Units.thy ===== *)
theory Units
  imports Prelude
begin

text \<open>
  The units boundary (spec section 6): every calculator receives pint quantities and
  first normalises each one with \<open>.to('inch')\<close> or \<open>.to('ksi')\<close>. The sources only
  call pint (\<open>ureg = pint.UnitRegistry()\<close> in each module); its behaviour is modelled
  from pint's definitions: a quantity is a magnitude and a unit, every unit has a
  dimension and a factor to SI base units, and \<open>q.to(u)\<close> raises
  \<open>DimensionalityError\<close> unless the dimensions agree, and otherwise rescales the
  magnitude through SI.  The unit catalogue holds the lengths, stresses and forces
  an engineering caller passes; pint's own constants are exact
  (inch = 0.0254 m, lbf = 0.45359237 kg * 9.80665 m/s2, kip = 1000 lbf,
  ksi = kip/in2).
\<close>

datatype dimension = Length | Stress | Force

datatype unit_name =
    Inch | Foot | Millimeter | Centimeter | Meter
  | Ksi | Psi | MPa | Pascal
  | Kip | PoundForce | Newton | Kilonewton

datatype quantity = Quantity (magnitude: real) (units: unit_name)

fun unit_dim :: "unit_name \<Rightarrow> dimension" where
  "unit_dim Inch = Length"
| "unit_dim Foot = Length"
| "unit_dim Millimeter = Length"
| "unit_dim Centimeter = Length"
| "unit_dim Meter = Length"
| "unit_dim Ksi = Stress"
| "unit_dim Psi = Stress"
| "unit_dim MPa = Stress"
| "unit_dim Pascal = Stress"
| "unit_dim Kip = Force"
| "unit_dim PoundForce = Force"
| "unit_dim Newton = Force"
| "unit_dim Kilonewton = Force"

text \<open>Factor of each unit to the SI unit of its dimension (m, Pa, N).\<close>

fun si_factor :: "unit_name \<Rightarrow> real" where
  "si_factor Inch = 0.0254"
| "si_factor Foot = 0.3048"
| "si_factor Millimeter = 0.001"
| "si_factor Centimeter = 0.01"
| "si_factor Meter = 1"
| "si_factor Ksi = 1000 * 4.4482216152605 / 0.0254\<^sup>2"
| "si_factor Psi = 4.4482216152605 / 0.0254\<^sup>2"
| "si_factor MPa = 1000000"
| "si_factor Pascal = 1"
| "si_factor Kip = 1000 * 4.4482216152605"
| "si_factor PoundForce = 4.4482216152605"
| "si_factor Newton = 1"
| "si_factor Kilonewton = 1000"

text \<open>pint's \<open>Quantity.to(u)\<close>.\<close>

definition quantity_to :: "quantity \<Rightarrow> unit_name \<Rightarrow> quantity result" where
  "quantity_to q u =
     (if unit_dim (units q) = unit_dim u
      then Inr (Quantity (magnitude q * si_factor (units q) / si_factor u) u)
      else Inl DimensionalityError)"

text \<open>
  Reading aids for the theorems (not code): the magnitude of \<open>q\<close> in unit \<open>u\<close>, whether
  \<open>q\<close> has a dimension, and physical equality of two quantities written in
  possibly different units.
\<close>

definition magnitude_in :: "quantity \<Rightarrow> unit_name \<Rightarrow> real" where
  "magnitude_in q u = magnitude q * si_factor (units q) / si_factor u"

definition has_dim :: "quantity \<Rightarrow> dimension \<Rightarrow> bool" where
  "has_dim q d \<longleftrightarrow> unit_dim (units q) = d"

definition same_quantity :: "quantity \<Rightarrow> quantity \<Rightarrow> bool" where
  "same_quantity q q' \<longleftrightarrow>
     unit_dim (units q) = unit_dim (units q') \<and>
     magnitude q * si_factor (units q) = magnitude q' * si_factor (units q')"

section \<open>Conversion lemmas\<close>

lemma si_factor_pos [simp]: "0 < si_factor u"
  by (cases u) simp_all

lemma si_factor_nonzero [simp]: "si_factor u \<noteq> 0"
  using si_factor_pos [of u] by linarith

lemma quantity_to_eq [quantity_simps]:
  "quantity_to q u =
     (if has_dim q (unit_dim u) then Inr (Quantity (magnitude_in q u) u)
      else Inl DimensionalityError)"
  by (simp add: quantity_to_def has_dim_def magnitude_in_def)

lemma quantity_to_ok:
  "has_dim q (unit_dim u) \<Longrightarrow> quantity_to q u = Inr (Quantity (magnitude_in q u) u)"
  by (simp add: quantity_to_def has_dim_def magnitude_in_def)

lemma quantity_to_bad:
  "\<not> has_dim q (unit_dim u) \<Longrightarrow> quantity_to q u = Inl DimensionalityError"
  by (simp add: quantity_to_def has_dim_def)

lemma quantity_to_Inl_iff:
  "quantity_to q u = Inl e \<longleftrightarrow> e = DimensionalityError \<and> \<not> has_dim q (unit_dim u)"
  by (auto simp: quantity_to_def has_dim_def)

lemma quantity_to_same_unit: "quantity_to (Quantity m u) u = Inr (Quantity m u)"
  by (simp add: quantity_to_def)

lemma magnitude_in_self [simp]: "magnitude_in (Quantity m u) u = m"
  by (simp add: magnitude_in_def)

lemma magnitude_in_trans:
  "magnitude_in (Quantity (magnitude_in q v) v) w = magnitude_in q w"
  by (simp add: magnitude_in_def)

lemma has_dim_Quantity [simp]: "has_dim (Quantity m u) d \<longleftrightarrow> unit_dim u = d"
  by (simp add: has_dim_def)

lemma same_quantity_refl: "same_quantity q q"
  by (simp add: same_quantity_def)

lemma same_quantity_sym: "same_quantity q q' \<Longrightarrow> same_quantity q' q"
  by (simp add: same_quantity_def)

lemma same_quantity_trans:
  "same_quantity q q' \<Longrightarrow> same_quantity q' q'' \<Longrightarrow> same_quantity q q''"
  by (simp add: same_quantity_def)

text \<open>Physically equal quantities convert to the same thing, or fail alike.\<close>

lemma quantity_to_same_quantity:
  "same_quantity q q' \<Longrightarrow> quantity_to q u = quantity_to q' u"
  by (simp add: same_quantity_def quantity_to_def)

lemma same_quantity_iff_magnitude_in:
  "same_quantity q q' \<longleftrightarrow>
     unit_dim (units q) = unit_dim (units q') \<and> magnitude_in q u = magnitude_in q' u"
  by (simp add: same_quantity_def magnitude_in_def)

end
