(* ===== verification/DesignMethod.thy ===== *)
theory DesignMethod
  imports Prelude
begin

text \<open>
  The DesignMethodPolicy of the spec (section 4.1): the contract every limit-state
  calculator promises.  The sources have no function for it: each calculator ends with
  its own \<open>if design_method == "ASD": ... elif design_method == "LRFD": ... else: raise\<close>
  chain.  This theory states the contract abstractly, as a function of the nominal
  strength and the factor pair, and the spec's table of factors per limit state;
  the component theories prove that each calculator refines it.
\<close>

definition design_policy :: "string \<Rightarrow> real \<Rightarrow> real \<Rightarrow> real \<Rightarrow> real result" where
  "design_policy method r_n omega phi =
     (if method = ''ASD'' then Inr (r_n / omega)
      else if method = ''LRFD'' then Inr (phi * r_n)
      else Inl InvalidDesignMethod)"

text \<open>The per-part form used by the two-part calculators.\<close>

definition design_policy_pair ::
  "string \<Rightarrow> real \<times> real \<Rightarrow> real \<Rightarrow> real \<Rightarrow> (real \<times> real) result" where
  "design_policy_pair method r_n omega phi =
     (if method = ''ASD'' then Inr (fst r_n / omega, snd r_n / omega)
      else if method = ''LRFD'' then Inr (phi * fst r_n, phi * snd r_n)
      else Inl InvalidDesignMethod)"

definition valid_method :: "string \<Rightarrow> bool" where
  "valid_method method \<longleftrightarrow> method = ''ASD'' \<or> method = ''LRFD''"

text \<open>The single factor the contract applies: \<open>1/\<Omega>\<close> under ASD, \<open>\<phi>\<close> under LRFD.\<close>

definition design_factor :: "string \<Rightarrow> real \<Rightarrow> real \<Rightarrow> real" where
  "design_factor method omega phi = (if method = ''ASD'' then 1 / omega else phi)"

datatype limit_state =
    BoltShear | BoltTension | BoltBearing | BoltTearout
  | ElemShearYield | ElemShearRupture | ElemTensileYield | ElemTensileRupture
  | WeldMaterial

text \<open>The spec's table of factors: \<open>\<Omega>\<close> for ASD, \<open>\<phi>\<close> for LRFD.\<close>

fun asd_factor :: "limit_state \<Rightarrow> real" where
  "asd_factor BoltShear = 2.00"
| "asd_factor BoltTension = 2.00"
| "asd_factor BoltBearing = 2.00"
| "asd_factor BoltTearout = 2.00"
| "asd_factor ElemShearYield = 1.50"
| "asd_factor ElemShearRupture = 2.00"
| "asd_factor ElemTensileYield = 1.67"
| "asd_factor ElemTensileRupture = 2.00"
| "asd_factor WeldMaterial = 2.00"

fun lrfd_factor :: "limit_state \<Rightarrow> real" where
  "lrfd_factor BoltShear = 0.75"
| "lrfd_factor BoltTension = 0.75"
| "lrfd_factor BoltBearing = 0.75"
| "lrfd_factor BoltTearout = 0.75"
| "lrfd_factor ElemShearYield = 1.00"
| "lrfd_factor ElemShearRupture = 0.75"
| "lrfd_factor ElemTensileYield = 0.90"
| "lrfd_factor ElemTensileRupture = 0.75"
| "lrfd_factor WeldMaterial = 0.75"

section \<open>Properties of the contract\<close>

lemma design_policy_ASD [simp]: "design_policy ''ASD'' r omega phi = Inr (r / omega)"
  by (simp add: design_policy_def)

lemma design_policy_LRFD [simp]: "design_policy ''LRFD'' r omega phi = Inr (phi * r)"
  by (simp add: design_policy_def)

lemma design_policy_pair_ASD [simp]:
  "design_policy_pair ''ASD'' r omega phi = Inr (fst r / omega, snd r / omega)"
  by (simp add: design_policy_pair_def)

lemma design_policy_pair_LRFD [simp]:
  "design_policy_pair ''LRFD'' r omega phi = Inr (phi * fst r, phi * snd r)"
  by (simp add: design_policy_pair_def)

lemma design_policy_invalid:
  "\<not> valid_method m \<Longrightarrow> design_policy m r omega phi = Inl InvalidDesignMethod"
  by (simp add: design_policy_def valid_method_def)

lemma design_policy_pair_invalid:
  "\<not> valid_method m \<Longrightarrow> design_policy_pair m r omega phi = Inl InvalidDesignMethod"
  by (simp add: design_policy_pair_def valid_method_def)

lemma design_policy_Inr_iff:
  "(\<exists>v. design_policy m r omega phi = Inr v) \<longleftrightarrow> valid_method m"
  by (simp add: design_policy_def valid_method_def)

lemma design_policy_pair_split:
  "design_policy_pair m (r1, r2) omega phi =
     bindE (design_policy m r1 omega phi)
       (\<lambda>v1. bindE (design_policy m r2 omega phi) (\<lambda>v2. Inr (v1, v2)))"
  by (simp add: design_policy_pair_def design_policy_def)

lemma design_policy_pair_swap:
  "design_policy_pair m (r2, r1) omega phi =
     map_sum id prod.swap (design_policy_pair m (r1, r2) omega phi)"
  by (simp add: design_policy_pair_def)

lemma design_policy_scale:
  "design_policy m (c * r) omega phi = map_sum id ((*) c) (design_policy m r omega phi)"
  by (simp add: design_policy_def)

lemma design_policy_bind_scale:
  "bindE (design_policy m r omega phi) (\<lambda>w. Inr (w * c)) = design_policy m (r * c) omega phi"
  by (simp add: design_policy_def)

lemma design_policy_mono:
  "0 < omega \<Longrightarrow> 0 \<le> phi \<Longrightarrow> r \<le> r' \<Longrightarrow> design_policy m r omega phi = Inr v \<Longrightarrow>
     design_policy m r' omega phi = Inr v' \<Longrightarrow> v \<le> v'"
  by (auto simp: design_policy_def divide_right_mono mult_left_mono split: if_splits)

lemma design_policy_Inr:
  "design_policy m r omega phi = Inr v \<Longrightarrow> valid_method m \<and> v = design_factor m omega phi * r"
  by (auto simp: design_policy_def valid_method_def design_factor_def split: if_splits)

lemma design_policy_pair_Inr:
  "design_policy_pair m (a, b) omega phi = Inr (v1, v2) \<Longrightarrow>
     valid_method m \<and> v1 = design_factor m omega phi * a \<and> v2 = design_factor m omega phi * b"
  by (auto simp: design_policy_pair_def valid_method_def design_factor_def split: if_splits)

lemma design_policy_valid:
  "valid_method m \<Longrightarrow> design_policy m r omega phi = Inr (design_factor m omega phi * r)"
  by (auto simp: design_policy_def valid_method_def design_factor_def)

lemma design_policy_pair_valid:
  "valid_method m \<Longrightarrow> design_policy_pair m (a, b) omega phi =
     Inr (design_factor m omega phi * a, design_factor m omega phi * b)"
  by (auto simp: design_policy_pair_def valid_method_def design_factor_def)

lemma design_factor_pos: "0 < omega \<Longrightarrow> 0 < phi \<Longrightarrow> 0 < design_factor m omega phi"
  by (simp add: design_factor_def)

lemma asd_factor_gt_1: "1 < asd_factor s"
  by (cases s) simp_all

lemma lrfd_factor_range: "0 < lrfd_factor s \<and> lrfd_factor s \<le> 1"
  by (cases s) simp_all

end
