(* ===== verification/Bolt.thy ===== *)
theory Bolt
  imports Units DesignMethod
begin

text \<open>
  BoltLimitStates and FastenerStrengthModel, from \<open>src/Steel/bolt.py\<close>: the nominal
  fastener stresses and the four bolt calculators (shear, bearing, tearout, tension).
  Each definition follows its Python function statement by statement: the \<open>.to()\<close>
  normalisations in source order (any of them may raise \<open>DimensionalityError\<close>),
  the nominal strength in inch/ksi, and the final ASD/LRFD chain whose \<open>else\<close>
  raises \<open>ValueError\<close>.  Results are magnitudes in kip (ksi times square inches);
  two-part calculators return one strength per connected part.
\<close>

definition nominal_fastener_strength :: "quantity \<Rightarrow> (quantity \<times> quantity) result" where
  "nominal_fastener_strength f_u =
     bindE (quantity_to f_u Ksi) (\<lambda>f_u.
       let f_nv = 0.45 * magnitude f_u;
           f_nt = 0.75 * magnitude f_u
       in Inr (Quantity f_nv Ksi, Quantity f_nt Ksi))"

definition shear_strength_bolts :: "string \<Rightarrow> quantity \<Rightarrow> quantity \<Rightarrow> kips result" where
  "shear_strength_bolts design_method bolt_dia f_u =
     bindE (nominal_fastener_strength f_u) (\<lambda>(f_nv, _).
     bindE (quantity_to bolt_dia Inch) (\<lambda>bolt_dia.
       let r_n = magnitude f_nv * (pi / 4) * (magnitude bolt_dia)\<^sup>2
       in if design_method = ''ASD'' then (let fos = 2.00 in Inr (r_n / fos))
          else if design_method = ''LRFD'' then (let str_reduction = 0.75 in Inr (str_reduction * r_n))
          else Inl InvalidDesignMethod))"

definition bearing_strength_bolts ::
  "string \<Rightarrow> quantity \<Rightarrow> quantity \<Rightarrow> quantity \<Rightarrow> quantity \<Rightarrow> quantity \<Rightarrow> (kips \<times> kips) result" where
  "bearing_strength_bolts design_method bolt_dia part1_t part1_ult part2_t part2_ult =
     bindE (quantity_to bolt_dia Inch) (\<lambda>bolt_dia.
     bindE (quantity_to part1_t Inch) (\<lambda>part1_t.
     bindE (quantity_to part2_t Inch) (\<lambda>part2_t.
     bindE (quantity_to part1_ult Ksi) (\<lambda>part1_ult.
     bindE (quantity_to part2_ult Ksi) (\<lambda>part2_ult.
       let r_n1 = 2.4 * magnitude bolt_dia * magnitude part1_t * magnitude part1_ult;
           r_n2 = 2.4 * magnitude bolt_dia * magnitude part2_t * magnitude part2_ult
       in if design_method = ''ASD'' then (let fos = 2.00 in Inr (r_n1 / fos, r_n2 / fos))
          else if design_method = ''LRFD'' then
            (let str_reduction = 0.75 in Inr (str_reduction * r_n1, str_reduction * r_n2))
          else Inl InvalidDesignMethod)))))"

definition tearout_strength_bolts ::
  "string \<Rightarrow> quantity \<Rightarrow> quantity \<Rightarrow> quantity \<Rightarrow> quantity \<Rightarrow> quantity \<Rightarrow> quantity \<Rightarrow> quantity
     \<Rightarrow> (kips \<times> kips) result" where
  "tearout_strength_bolts design_method bolt_dia part1_edge_dist part2_edge_dist
       part1_t part1_ult part2_t part2_ult =
     bindE (quantity_to bolt_dia Inch) (\<lambda>bolt_dia.
     bindE (quantity_to part1_edge_dist Inch) (\<lambda>part1_edge_dist.
     bindE (quantity_to part2_edge_dist Inch) (\<lambda>part2_edge_dist.
     bindE (quantity_to part1_t Inch) (\<lambda>part1_t.
     bindE (quantity_to part2_t Inch) (\<lambda>part2_t.
     bindE (quantity_to part1_ult Ksi) (\<lambda>part1_ult.
     bindE (quantity_to part2_ult Ksi) (\<lambda>part2_ult.
       let net_dist_1 = magnitude part1_edge_dist - (magnitude bolt_dia + 0.125) / 2;
           net_dist_2 = magnitude part2_edge_dist - (magnitude bolt_dia + 0.125) / 2;
           r_n1 = 1.2 * net_dist_1 * magnitude part1_t * magnitude part1_ult;
           r_n2 = 1.2 * net_dist_2 * magnitude part2_t * magnitude part2_ult
       in if design_method = ''ASD'' then (let fos = 2.00 in Inr (r_n1 / fos, r_n2 / fos))
          else if design_method = ''LRFD'' then
            (let str_reduction = 0.75 in Inr (str_reduction * r_n1, str_reduction * r_n2))
          else Inl InvalidDesignMethod)))))))"

definition tensile_strength_bolts :: "string \<Rightarrow> quantity \<Rightarrow> quantity \<Rightarrow> kips result" where
  "tensile_strength_bolts design_method bolt_dia f_u =
     bindE (nominal_fastener_strength f_u) (\<lambda>(_, f_nt).
     bindE (quantity_to bolt_dia Inch) (\<lambda>bolt_dia.
       let r_n = magnitude f_nt * (pi / 4) * (magnitude bolt_dia)\<^sup>2
       in if design_method = ''ASD'' then (let fos = 2.00 in Inr (r_n / fos))
          else if design_method = ''LRFD'' then (let str_reduction = 0.75 in Inr (str_reduction * r_n))
          else Inl InvalidDesignMethod))"

declare nominal_fastener_strength_def [strength_defs] shear_strength_bolts_def [strength_defs]
  bearing_strength_bolts_def [strength_defs] tearout_strength_bolts_def [strength_defs]
  tensile_strength_bolts_def [strength_defs]

section \<open>Normal forms\<close>

text \<open>
  Each calculator either raises \<open>DimensionalityError\<close> (some input has the wrong
  dimension) or applies the design-method chain to its nominal strength computed from
  the inputs' magnitudes in inch and ksi.
\<close>

lemma nominal_fastener_strength_eq:
  "nominal_fastener_strength f_u =
     (if has_dim f_u Stress
      then Inr (Quantity (0.45 * magnitude_in f_u Ksi) Ksi, Quantity (0.75 * magnitude_in f_u Ksi) Ksi)
      else Inl DimensionalityError)"
  by (simp add: nominal_fastener_strength_def quantity_simps)

lemma shear_strength_bolts_eq:
  "shear_strength_bolts m bolt_dia f_u =
     (if has_dim bolt_dia Length \<and> has_dim f_u Stress
      then design_policy m (0.45 * magnitude_in f_u Ksi * (pi / 4) * (magnitude_in bolt_dia Inch)\<^sup>2) 2 0.75
      else Inl DimensionalityError)"
  by (simp add: shear_strength_bolts_def nominal_fastener_strength_eq quantity_simps
      design_policy_def Let_def)

lemma tensile_strength_bolts_eq:
  "tensile_strength_bolts m bolt_dia f_u =
     (if has_dim bolt_dia Length \<and> has_dim f_u Stress
      then design_policy m (0.75 * magnitude_in f_u Ksi * (pi / 4) * (magnitude_in bolt_dia Inch)\<^sup>2) 2 0.75
      else Inl DimensionalityError)"
  by (simp add: tensile_strength_bolts_def nominal_fastener_strength_eq quantity_simps
      design_policy_def Let_def)

lemma bearing_strength_bolts_eq:
  "bearing_strength_bolts m bolt_dia t1 u1 t2 u2 =
     (if has_dim bolt_dia Length \<and> has_dim t1 Length \<and> has_dim t2 Length
         \<and> has_dim u1 Stress \<and> has_dim u2 Stress
      then design_policy_pair m
        (2.4 * magnitude_in bolt_dia Inch * magnitude_in t1 Inch * magnitude_in u1 Ksi,
         2.4 * magnitude_in bolt_dia Inch * magnitude_in t2 Inch * magnitude_in u2 Ksi) 2 0.75
      else Inl DimensionalityError)"
  by (simp add: bearing_strength_bolts_def quantity_simps design_policy_pair_def Let_def)

lemma tearout_strength_bolts_eq:
  "tearout_strength_bolts m bolt_dia e1 e2 t1 u1 t2 u2 =
     (if has_dim bolt_dia Length \<and> has_dim e1 Length \<and> has_dim e2 Length
         \<and> has_dim t1 Length \<and> has_dim t2 Length \<and> has_dim u1 Stress \<and> has_dim u2 Stress
      then design_policy_pair m
        (1.2 * (magnitude_in e1 Inch - (magnitude_in bolt_dia Inch + 0.125) / 2)
             * magnitude_in t1 Inch * magnitude_in u1 Ksi,
         1.2 * (magnitude_in e2 Inch - (magnitude_in bolt_dia Inch + 0.125) / 2)
             * magnitude_in t2 Inch * magnitude_in u2 Ksi) 2 0.75
      else Inl DimensionalityError)"
  by (simp add: tearout_strength_bolts_def quantity_simps design_policy_pair_def Let_def)

text \<open>What a successful two-part call returns: the nominal strengths scaled by the
  method's positive factor.\<close>

lemma bearing_strength_bolts_Inr:
  assumes "bearing_strength_bolts m bolt_dia t1 u1 t2 u2 = Inr (r1, r2)"
  shows "\<exists>c>0. r1 = c * (2.4 * magnitude_in bolt_dia Inch * magnitude_in t1 Inch * magnitude_in u1 Ksi)
            \<and> r2 = c * (2.4 * magnitude_in bolt_dia Inch * magnitude_in t2 Inch * magnitude_in u2 Ksi)"
  using assms design_factor_pos [of 2 "0.75" m]
  by (auto simp: bearing_strength_bolts_eq split: if_splits dest!: design_policy_pair_Inr)

lemma tearout_strength_bolts_Inr:
  assumes "tearout_strength_bolts m bolt_dia e1 e2 t1 u1 t2 u2 = Inr (r1, r2)"
  shows "\<exists>c>0. r1 = c * (1.2 * (magnitude_in e1 Inch - (magnitude_in bolt_dia Inch + 0.125) / 2)
                          * magnitude_in t1 Inch * magnitude_in u1 Ksi)
            \<and> r2 = c * (1.2 * (magnitude_in e2 Inch - (magnitude_in bolt_dia Inch + 0.125) / 2)
                          * magnitude_in t2 Inch * magnitude_in u2 Ksi)
            \<and> bearing_strength_bolts m bolt_dia t1 u1 t2 u2 =
                Inr (c * (2.4 * magnitude_in bolt_dia Inch * magnitude_in t1 Inch * magnitude_in u1 Ksi),
                     c * (2.4 * magnitude_in bolt_dia Inch * magnitude_in t2 Inch * magnitude_in u2 Ksi))"
  using assms design_factor_pos [of 2 "0.75" m]
  by (auto simp: tearout_strength_bolts_eq bearing_strength_bolts_eq design_policy_pair_valid
      split: if_splits dest!: design_policy_pair_Inr)

section \<open>Refinement of the design-method contract\<close>

text \<open>
  C1: shear_strength_bolts implements the DesignMethodPolicy contract for bolt shear:
  after normalising the diameter to inches and the ultimate strength to ksi it applies
  the table's factors (\<open>\<Omega>\<close> = 2.00, \<open>\<phi>\<close> = 0.75) to the nominal strength
  \<open>0.45 F\<^sub>u (\<pi>/4) d\<^sup>2\<close>, and raises DimensionalityError when an input has the wrong
  dimension.
\<close>

theorem shear_strength_bolts_refines:
  "shear_strength_bolts m bolt_dia f_u =
     (if has_dim bolt_dia Length \<and> has_dim f_u Stress
      then design_policy m (0.45 * magnitude_in f_u Ksi * (pi / 4) * (magnitude_in bolt_dia Inch)\<^sup>2)
             (asd_factor BoltShear) (lrfd_factor BoltShear)
      else Inl DimensionalityError)"
  by (simp add: shear_strength_bolts_eq)

text \<open>
  C2: bearing_strength_bolts implements the contract for bolt bearing on each of the
  two connected parts: \<open>R\<^sub>n\<^sub>i = 2.4 d t\<^sub>i F\<^sub>u\<^sub>i\<close>, with \<open>\<Omega>\<close> = 2.00 and \<open>\<phi>\<close> = 0.75 applied to
  both parts, and no minimum taken.
\<close>

theorem bearing_strength_bolts_refines:
  "bearing_strength_bolts m bolt_dia t1 u1 t2 u2 =
     (if has_dim bolt_dia Length \<and> has_dim t1 Length \<and> has_dim t2 Length
         \<and> has_dim u1 Stress \<and> has_dim u2 Stress
      then design_policy_pair m
        (2.4 * magnitude_in bolt_dia Inch * magnitude_in t1 Inch * magnitude_in u1 Ksi,
         2.4 * magnitude_in bolt_dia Inch * magnitude_in t2 Inch * magnitude_in u2 Ksi)
        (asd_factor BoltBearing) (lrfd_factor BoltBearing)
      else Inl DimensionalityError)"
  by (simp add: bearing_strength_bolts_eq)

text \<open>
  C3: tearout_strength_bolts implements the contract for bolt tearout on each part:
  the clear distance is the edge distance less half of \<open>d + 0.125 in\<close>, and
  \<open>R\<^sub>n\<^sub>i = 1.2 l\<^sub>c\<^sub>i t\<^sub>i F\<^sub>u\<^sub>i\<close> with \<open>\<Omega>\<close> = 2.00 and \<open>\<phi>\<close> = 0.75.
\<close>

theorem tearout_strength_bolts_refines:
  "tearout_strength_bolts m bolt_dia e1 e2 t1 u1 t2 u2 =
     (if has_dim bolt_dia Length \<and> has_dim e1 Length \<and> has_dim e2 Length
         \<and> has_dim t1 Length \<and> has_dim t2 Length \<and> has_dim u1 Stress \<and> has_dim u2 Stress
      then design_policy_pair m
        (1.2 * (magnitude_in e1 Inch - (magnitude_in bolt_dia Inch + 0.125) / 2)
             * magnitude_in t1 Inch * magnitude_in u1 Ksi,
         1.2 * (magnitude_in e2 Inch - (magnitude_in bolt_dia Inch + 0.125) / 2)
             * magnitude_in t2 Inch * magnitude_in u2 Ksi)
        (asd_factor BoltTearout) (lrfd_factor BoltTearout)
      else Inl DimensionalityError)"
  by (simp add: tearout_strength_bolts_eq)

text \<open>
  C4: tensile_strength_bolts implements the contract for bolt tension: nominal
  \<open>0.75 F\<^sub>u (\<pi>/4) d\<^sup>2\<close> with \<open>\<Omega>\<close> = 2.00 and \<open>\<phi>\<close> = 0.75.
\<close>

theorem tensile_strength_bolts_refines:
  "tensile_strength_bolts m bolt_dia f_u =
     (if has_dim bolt_dia Length \<and> has_dim f_u Stress
      then design_policy m (0.75 * magnitude_in f_u Ksi * (pi / 4) * (magnitude_in bolt_dia Inch)\<^sup>2)
             (asd_factor BoltTension) (lrfd_factor BoltTension)
      else Inl DimensionalityError)"
  by (simp add: tensile_strength_bolts_eq)

section \<open>Functional properties\<close>

text \<open>
  C21: a bolt's tensile strength is exactly 5/3 of its shear strength, under either
  design method and for every input, errors included: both use the same area and
  factors, with \<open>F\<^sub>n\<^sub>t = 0.75 F\<^sub>u\<close> against \<open>F\<^sub>n\<^sub>v = 0.45 F\<^sub>u\<close>.
\<close>

theorem tensile_shear_bolts_ratio:
  "tensile_strength_bolts m bolt_dia f_u =
     map_sum id (\<lambda>r. 5 / 3 * r) (shear_strength_bolts m bolt_dia f_u)"
  by (simp add: tensile_strength_bolts_eq shear_strength_bolts_eq design_policy_def)

text \<open>
  C24: the two connected parts are treated independently and alike: swapping part 1
  and part 2 swaps the two bearing strengths and the two tearout strengths.
\<close>

theorem bolt_parts_swap:
  "bearing_strength_bolts m d t2 u2 t1 u1 =
     map_sum id prod.swap (bearing_strength_bolts m d t1 u1 t2 u2) \<and>
   tearout_strength_bolts m d e2 e1 t2 u2 t1 u1 =
     map_sum id prod.swap (tearout_strength_bolts m d e1 e2 t1 u1 t2 u2)"
  by (auto simp: bearing_strength_bolts_eq tearout_strength_bolts_eq design_policy_pair_def)

text \<open>
  C26: for a part of positive thickness and strength, the tearout strength the
  calculator returns is non-positive exactly when the edge distance does not exceed
  half the hole, \<open>(d + 0.125 in)/2\<close>; the calculator does not flag this case.
\<close>

theorem tearout_strength_bolts_nonpositive:
  assumes "tearout_strength_bolts m bolt_dia e1 e2 t1 u1 t2 u2 = Inr (r1, r2)"
    and "0 < magnitude_in t1 Inch" and "0 < magnitude_in u1 Ksi"
  shows "r1 \<le> 0 \<longleftrightarrow> magnitude_in e1 Inch \<le> (magnitude_in bolt_dia Inch + 0.125) / 2"
proof -
  let ?lc = "magnitude_in e1 Inch - (magnitude_in bolt_dia Inch + 0.125) / 2"
  from tearout_strength_bolts_Inr [OF assms(1)] obtain c where c: "0 < c"
    and r1: "r1 = c * (1.2 * ?lc * magnitude_in t1 Inch * magnitude_in u1 Ksi)"
    by blast
  have "r1 \<le> 0 \<longleftrightarrow> 1.2 * ?lc \<le> 0"
    unfolding r1 using c assms(2,3) by (rule pos_mult_nonpos_iff)
  then show ?thesis by auto
qed

text \<open>
  C28: for a part of positive thickness and strength, tearout governs over bearing
  (its strength is at most the bearing strength) exactly when the clear distance is
  at most twice the bolt diameter.
\<close>

theorem tearout_governs_iff:
  assumes "tearout_strength_bolts m bolt_dia e1 e2 t1 u1 t2 u2 = Inr (r1, r2)"
    and "bearing_strength_bolts m bolt_dia t1 u1 t2 u2 = Inr (b1, b2)"
    and "0 < magnitude_in t1 Inch" and "0 < magnitude_in u1 Ksi"
  shows "r1 \<le> b1 \<longleftrightarrow>
    magnitude_in e1 Inch - (magnitude_in bolt_dia Inch + 0.125) / 2 \<le> 2 * magnitude_in bolt_dia Inch"
proof -
  let ?lc = "magnitude_in e1 Inch - (magnitude_in bolt_dia Inch + 0.125) / 2"
  let ?d = "magnitude_in bolt_dia Inch"
  from tearout_strength_bolts_Inr [OF assms(1)] assms(2) obtain c where c: "0 < c"
    and r1: "r1 = c * (1.2 * ?lc * magnitude_in t1 Inch * magnitude_in u1 Ksi)"
    and b1: "b1 = c * (2.4 * ?d * magnitude_in t1 Inch * magnitude_in u1 Ksi)"
    by auto
  have "r1 \<le> b1 \<longleftrightarrow> 1.2 * ?lc \<le> 2.4 * ?d"
    unfolding r1 b1 using c assms(3,4) by (rule pos_mult_le_iff)
  also have "\<dots> \<longleftrightarrow> ?lc \<le> 2 * ?d"
    by argo
  finally show ?thesis .
qed

text \<open>
  C29: bolt shear strength never decreases when the bolt diameter grows, for
  non-negative diameters and strength, under either design method.
\<close>

theorem shear_strength_bolts_mono:
  assumes "shear_strength_bolts m d f_u = Inr r" and "shear_strength_bolts m d' f_u = Inr r'"
    and "0 \<le> magnitude_in d Inch" and "magnitude_in d Inch \<le> magnitude_in d' Inch"
    and "0 \<le> magnitude_in f_u Ksi"
  shows "r \<le> r'"
proof -
  let ?rn = "\<lambda>q. 0.45 * magnitude_in f_u Ksi * (pi / 4) * (magnitude_in q Inch)\<^sup>2"
  have "(magnitude_in d Inch)\<^sup>2 \<le> (magnitude_in d' Inch)\<^sup>2"
    using assms(4,3) by (rule power_mono)
  then have le: "?rn d \<le> ?rn d'"
    using assms(5) by (simp add: mult_left_mono)
  from assms(1) have "design_policy m (?rn d) 2 0.75 = Inr r"
    by (simp add: shear_strength_bolts_eq split: if_splits)
  then have r: "r = design_factor m 2 0.75 * ?rn d"
    by (rule design_policy_Inr [THEN conjunct2])
  from assms(2) have "design_policy m (?rn d') 2 0.75 = Inr r'"
    by (simp add: shear_strength_bolts_eq split: if_splits)
  then have r': "r' = design_factor m 2 0.75 * ?rn d'"
    by (rule design_policy_Inr [THEN conjunct2])
  have "0 \<le> design_factor m 2 0.75"
    by (simp add: design_factor_def)
  with le show ?thesis
    unfolding r r' by (rule mult_left_mono)
qed

section \<open>Witnesses\<close>

text \<open>
  A 3/4 in bolt 0.4 in from the edge of a 1/2 in, 58 ksi plate: the clear distance is
  negative and so is the returned tearout strength.
\<close>

theorem tearout_strength_bolts_nonpositive_witness:
  "tearout_strength_bolts ''ASD'' (Quantity 0.75 Inch) (Quantity 0.4 Inch) (Quantity 1.5 Inch)
     (Quantity 0.5 Inch) (Quantity 58 Ksi) (Quantity 0.375 Inch) (Quantity 58 Ksi)
     = Inr (-0.6525, 13.865625)
   \<and> 0 < magnitude_in (Quantity 0.5 Inch) Inch \<and> 0 < magnitude_in (Quantity 58 Ksi) Ksi
   \<and> ((-0.6525::real) \<le> 0 \<longleftrightarrow>
        magnitude_in (Quantity 0.4 Inch) Inch \<le> (magnitude_in (Quantity 0.75 Inch) Inch + 0.125) / 2)"
proof -
  have r: "tearout_strength_bolts ''ASD'' (Quantity 0.75 Inch) (Quantity 0.4 Inch) (Quantity 1.5 Inch)
     (Quantity 0.5 Inch) (Quantity 58 Ksi) (Quantity 0.375 Inch) (Quantity 58 Ksi)
     = Inr (-0.6525, 13.865625)"
    by (simp add: tearout_strength_bolts_eq)
  have "0 < magnitude_in (Quantity 0.5 Inch) Inch" "0 < magnitude_in (Quantity 58 Ksi) Ksi"
    by simp_all
  with r show ?thesis
    using tearout_strength_bolts_nonpositive [OF r] by simp
qed

text \<open>The same bolt 1 in from the edge: tearout (9.7875 kip) governs bearing (26.1 kip).\<close>

theorem tearout_governs_iff_witness:
  "tearout_strength_bolts ''ASD'' (Quantity 0.75 Inch) (Quantity 1 Inch) (Quantity 1.5 Inch)
     (Quantity 0.5 Inch) (Quantity 58 Ksi) (Quantity 0.375 Inch) (Quantity 58 Ksi)
     = Inr (9.7875, 13.865625)
   \<and> bearing_strength_bolts ''ASD'' (Quantity 0.75 Inch) (Quantity 0.5 Inch) (Quantity 58 Ksi)
       (Quantity 0.375 Inch) (Quantity 58 Ksi) = Inr (26.1, 19.575)
   \<and> ((9.7875::real) \<le> 26.1 \<longleftrightarrow>
        magnitude_in (Quantity 1 Inch) Inch - (magnitude_in (Quantity 0.75 Inch) Inch + 0.125) / 2
          \<le> 2 * magnitude_in (Quantity 0.75 Inch) Inch)"
proof -
  have t: "tearout_strength_bolts ''ASD'' (Quantity 0.75 Inch) (Quantity 1 Inch) (Quantity 1.5 Inch)
     (Quantity 0.5 Inch) (Quantity 58 Ksi) (Quantity 0.375 Inch) (Quantity 58 Ksi)
     = Inr (9.7875, 13.865625)"
    by (simp add: tearout_strength_bolts_eq)
  have b: "bearing_strength_bolts ''ASD'' (Quantity 0.75 Inch) (Quantity 0.5 Inch) (Quantity 58 Ksi)
       (Quantity 0.375 Inch) (Quantity 58 Ksi) = Inr (26.1, 19.575)"
    by (simp add: bearing_strength_bolts_eq)
  show ?thesis
    using t b tearout_governs_iff [OF t b] by simp
qed

text \<open>A 5/8 in and a 3/4 in A325-type bolt (120 ksi) under LRFD.\<close>

theorem shear_strength_bolts_mono_witness:
  "shear_strength_bolts ''LRFD'' (Quantity 0.625 Inch) (Quantity 120 Ksi)
     = Inr (0.75 * (0.45 * 120 * (pi / 4) * 0.625\<^sup>2))
   \<and> shear_strength_bolts ''LRFD'' (Quantity 0.75 Inch) (Quantity 120 Ksi)
     = Inr (0.75 * (0.45 * 120 * (pi / 4) * 0.75\<^sup>2))
   \<and> 0.75 * (0.45 * 120 * (pi / 4) * 0.625\<^sup>2) \<le> 0.75 * (0.45 * 120 * (pi / 4) * (0.75::real)\<^sup>2)"
proof -
  have a: "shear_strength_bolts ''LRFD'' (Quantity 0.625 Inch) (Quantity 120 Ksi)
     = Inr (0.75 * (0.45 * 120 * (pi / 4) * 0.625\<^sup>2))"
    by (simp add: shear_strength_bolts_eq)
  have b: "shear_strength_bolts ''LRFD'' (Quantity 0.75 Inch) (Quantity 120 Ksi)
     = Inr (0.75 * (0.45 * 120 * (pi / 4) * 0.75\<^sup>2))"
    by (simp add: shear_strength_bolts_eq)
  have "0.75 * (0.45 * 120 * (pi / 4) * 0.625\<^sup>2) \<le> 0.75 * (0.45 * 120 * (pi / 4) * (0.75::real)\<^sup>2)"
    using shear_strength_bolts_mono [OF a b] by simp
  with a b show ?thesis by simp
qed

end
