(* ===== verification/ConnectedElement.thy ===== *)
theory ConnectedElement
  imports Units DesignMethod
begin

text \<open>
  ConnectedElementLimitStates, from \<open>src/Steel/connected_element.py\<close>: shear yield,
  shear rupture, tensile yield and tensile rupture of the two plates or members a
  connection joins.  As in Bolt, each definition follows its Python function: the
  \<open>.to()\<close> normalisations in source order, the per-part nominal strengths, and the
  ASD/LRFD chain with the function's own factors.  Rupture deducts
  \<open>(d + 0.063 in) \<times> bolt_count\<close> from each part's length (\<open>bolt_count\<close> is a Python
  \<open>int\<close>); tensile rupture multiplies by the caller's shear-lag factor, a plain float
  that is not validated.
\<close>

definition connected_elem_shear_yield_str ::
  "string \<Rightarrow> quantity \<Rightarrow> quantity \<Rightarrow> quantity \<Rightarrow> quantity \<Rightarrow> quantity \<Rightarrow> quantity
     \<Rightarrow> (kips \<times> kips) result" where
  "connected_elem_shear_yield_str design_method part1_t part1_len part1_yield
       part2_t part2_len part2_yield =
     bindE (quantity_to part1_t Inch) (\<lambda>part1_t.
     bindE (quantity_to part1_len Inch) (\<lambda>part1_len.
     bindE (quantity_to part1_yield Ksi) (\<lambda>part1_yield.
     bindE (quantity_to part2_t Inch) (\<lambda>part2_t.
     bindE (quantity_to part2_len Inch) (\<lambda>part2_len.
     bindE (quantity_to part2_yield Ksi) (\<lambda>part2_yield.
       let r_n1 = 0.60 * magnitude part1_yield * (magnitude part1_t * magnitude part1_len);
           r_n2 = 0.60 * magnitude part2_yield * (magnitude part2_t * magnitude part2_len)
       in if design_method = ''ASD'' then (let fos = 1.50 in Inr (r_n1 / fos, r_n2 / fos))
          else if design_method = ''LRFD'' then
            (let str_reduction = 1.00 in Inr (str_reduction * r_n1, str_reduction * r_n2))
          else Inl InvalidDesignMethod))))))"

definition connected_elem_shear_rupture_str ::
  "string \<Rightarrow> quantity \<Rightarrow> int \<Rightarrow> quantity \<Rightarrow> quantity \<Rightarrow> quantity \<Rightarrow> quantity \<Rightarrow> quantity
     \<Rightarrow> quantity \<Rightarrow> (kips \<times> kips) result" where
  "connected_elem_shear_rupture_str design_method bolt_dia bolt_count
       part1_t part1_len part1_ult part2_t part2_len part2_ult =
     bindE (quantity_to bolt_dia Inch) (\<lambda>bolt_dia.
     bindE (quantity_to part1_t Inch) (\<lambda>part1_t.
     bindE (quantity_to part1_len Inch) (\<lambda>part1_len.
     bindE (quantity_to part1_ult Ksi) (\<lambda>part1_ult.
     bindE (quantity_to part2_t Inch) (\<lambda>part2_t.
     bindE (quantity_to part2_len Inch) (\<lambda>part2_len.
     bindE (quantity_to part2_ult Ksi) (\<lambda>part2_ult.
       let net_width_1 = magnitude part1_len - (magnitude bolt_dia + 0.063) * of_int bolt_count;
           net_width_2 = magnitude part2_len - (magnitude bolt_dia + 0.063) * of_int bolt_count;
           a_nv1 = magnitude part1_t * net_width_1;
           a_nv2 = magnitude part2_t * net_width_2;
           r_n1 = 0.60 * magnitude part1_ult * a_nv1;
           r_n2 = 0.60 * magnitude part2_ult * a_nv2
       in if design_method = ''ASD'' then (let fos = 2.00 in Inr (r_n1 / fos, r_n2 / fos))
          else if design_method = ''LRFD'' then
            (let str_reduction = 0.75 in Inr (str_reduction * r_n1, str_reduction * r_n2))
          else Inl InvalidDesignMethod)))))))"

definition connected_elem_tensile_yield_str ::
  "string \<Rightarrow> quantity \<Rightarrow> quantity \<Rightarrow> quantity \<Rightarrow> quantity \<Rightarrow> quantity \<Rightarrow> quantity
     \<Rightarrow> (kips \<times> kips) result" where
  "connected_elem_tensile_yield_str design_method part1_t part1_len part1_yield
       part2_t part2_len part2_yield =
     bindE (quantity_to part1_t Inch) (\<lambda>part1_t.
     bindE (quantity_to part1_len Inch) (\<lambda>part1_len.
     bindE (quantity_to part1_yield Ksi) (\<lambda>part1_yield.
     bindE (quantity_to part2_t Inch) (\<lambda>part2_t.
     bindE (quantity_to part2_len Inch) (\<lambda>part2_len.
     bindE (quantity_to part2_yield Ksi) (\<lambda>part2_yield.
       let r_n1 = magnitude part1_yield * (magnitude part1_t * magnitude part1_len);
           r_n2 = magnitude part2_yield * (magnitude part2_t * magnitude part2_len)
       in if design_method = ''ASD'' then (let fos = 1.67 in Inr (r_n1 / fos, r_n2 / fos))
          else if design_method = ''LRFD'' then
            (let str_reduction = 0.90 in Inr (str_reduction * r_n1, str_reduction * r_n2))
          else Inl InvalidDesignMethod))))))"

definition connected_elem_tensile_rupture_str ::
  "string \<Rightarrow> quantity \<Rightarrow> int \<Rightarrow> real \<Rightarrow> quantity \<Rightarrow> quantity \<Rightarrow> quantity \<Rightarrow> quantity
     \<Rightarrow> quantity \<Rightarrow> quantity \<Rightarrow> (kips \<times> kips) result" where
  "connected_elem_tensile_rupture_str design_method bolt_dia bolt_count shear_lag
       part1_t part1_len part1_ult part2_t part2_len part2_ult =
     bindE (quantity_to bolt_dia Inch) (\<lambda>bolt_dia.
     bindE (quantity_to part1_t Inch) (\<lambda>part1_t.
     bindE (quantity_to part1_len Inch) (\<lambda>part1_len.
     bindE (quantity_to part1_ult Ksi) (\<lambda>part1_ult.
     bindE (quantity_to part2_t Inch) (\<lambda>part2_t.
     bindE (quantity_to part2_len Inch) (\<lambda>part2_len.
     bindE (quantity_to part2_ult Ksi) (\<lambda>part2_ult.
       let net_width_1 = magnitude part1_len - (magnitude bolt_dia + 0.063) * of_int bolt_count;
           net_width_2 = magnitude part2_len - (magnitude bolt_dia + 0.063) * of_int bolt_count;
           a_nv1 = magnitude part1_t * net_width_1;
           a_nv2 = magnitude part2_t * net_width_2;
           r_n1 = magnitude part1_ult * a_nv1 * shear_lag;
           r_n2 = magnitude part2_ult * a_nv2 * shear_lag
       in if design_method = ''ASD'' then (let fos = 2.00 in Inr (r_n1 / fos, r_n2 / fos))
          else if design_method = ''LRFD'' then
            (let str_reduction = 0.75 in Inr (str_reduction * r_n1, str_reduction * r_n2))
          else Inl InvalidDesignMethod)))))))"

declare connected_elem_shear_yield_str_def [strength_defs]
  connected_elem_shear_rupture_str_def [strength_defs]
  connected_elem_tensile_yield_str_def [strength_defs]
  connected_elem_tensile_rupture_str_def [strength_defs]

section \<open>Normal forms\<close>

text \<open>The net width of a part after deducting the bolt holes.\<close>

abbreviation net_width :: "quantity \<Rightarrow> quantity \<Rightarrow> int \<Rightarrow> real" where
  "net_width len bolt_dia n \<equiv> magnitude_in len Inch - (magnitude_in bolt_dia Inch + 0.063) * of_int n"

lemma connected_elem_shear_yield_str_eq:
  "connected_elem_shear_yield_str m t1 l1 y1 t2 l2 y2 =
     (if has_dim t1 Length \<and> has_dim l1 Length \<and> has_dim y1 Stress
         \<and> has_dim t2 Length \<and> has_dim l2 Length \<and> has_dim y2 Stress
      then design_policy_pair m
        (0.60 * magnitude_in y1 Ksi * (magnitude_in t1 Inch * magnitude_in l1 Inch),
         0.60 * magnitude_in y2 Ksi * (magnitude_in t2 Inch * magnitude_in l2 Inch)) 1.50 1.00
      else Inl DimensionalityError)"
  by (simp add: connected_elem_shear_yield_str_def quantity_simps design_policy_pair_def Let_def)

lemma connected_elem_shear_rupture_str_eq:
  "connected_elem_shear_rupture_str m d n t1 l1 u1 t2 l2 u2 =
     (if has_dim d Length \<and> has_dim t1 Length \<and> has_dim l1 Length \<and> has_dim u1 Stress
         \<and> has_dim t2 Length \<and> has_dim l2 Length \<and> has_dim u2 Stress
      then design_policy_pair m
        (0.60 * magnitude_in u1 Ksi * (magnitude_in t1 Inch * net_width l1 d n),
         0.60 * magnitude_in u2 Ksi * (magnitude_in t2 Inch * net_width l2 d n)) 2.00 0.75
      else Inl DimensionalityError)"
  by (simp add: connected_elem_shear_rupture_str_def quantity_simps design_policy_pair_def Let_def)

lemma connected_elem_tensile_yield_str_eq:
  "connected_elem_tensile_yield_str m t1 l1 y1 t2 l2 y2 =
     (if has_dim t1 Length \<and> has_dim l1 Length \<and> has_dim y1 Stress
         \<and> has_dim t2 Length \<and> has_dim l2 Length \<and> has_dim y2 Stress
      then design_policy_pair m
        (magnitude_in y1 Ksi * (magnitude_in t1 Inch * magnitude_in l1 Inch),
         magnitude_in y2 Ksi * (magnitude_in t2 Inch * magnitude_in l2 Inch)) 1.67 0.90
      else Inl DimensionalityError)"
  by (simp add: connected_elem_tensile_yield_str_def quantity_simps design_policy_pair_def Let_def)

lemma connected_elem_tensile_rupture_str_eq:
  "connected_elem_tensile_rupture_str m d n s t1 l1 u1 t2 l2 u2 =
     (if has_dim d Length \<and> has_dim t1 Length \<and> has_dim l1 Length \<and> has_dim u1 Stress
         \<and> has_dim t2 Length \<and> has_dim l2 Length \<and> has_dim u2 Stress
      then design_policy_pair m
        (magnitude_in u1 Ksi * (magnitude_in t1 Inch * net_width l1 d n) * s,
         magnitude_in u2 Ksi * (magnitude_in t2 Inch * net_width l2 d n) * s) 2.00 0.75
      else Inl DimensionalityError)"
  by (simp add: connected_elem_tensile_rupture_str_def quantity_simps design_policy_pair_def Let_def)

text \<open>A successful rupture call: each part's net width times thickness times strength,
  scaled by 0.60 and the method's factor.\<close>

lemma connected_elem_shear_rupture_str_Inr:
  assumes "connected_elem_shear_rupture_str m d n t1 l1 u1 t2 l2 u2 = Inr (r1, r2)"
  shows "r1 = 0.6 * design_factor m 2 0.75 * (net_width l1 d n * magnitude_in t1 Inch * magnitude_in u1 Ksi)
       \<and> r2 = 0.6 * design_factor m 2 0.75 * (net_width l2 d n * magnitude_in t2 Inch * magnitude_in u2 Ksi)"
proof -
  from assms have "design_policy_pair m
        (0.60 * magnitude_in u1 Ksi * (magnitude_in t1 Inch * net_width l1 d n),
         0.60 * magnitude_in u2 Ksi * (magnitude_in t2 Inch * net_width l2 d n)) 2.00 0.75 = Inr (r1, r2)"
    by (simp add: connected_elem_shear_rupture_str_eq split: if_splits)
  then show ?thesis
    by (auto dest!: design_policy_pair_Inr simp: ac_simps)
qed

lemma rupture_factor_pos: "0 < 0.6 * design_factor m 2 0.75"
  by (simp add: design_factor_def)

section \<open>Refinement of the design-method contract\<close>

text \<open>
  C5: connected_elem_shear_yield_str implements the DesignMethodPolicy contract for
  element shear yield: \<open>R\<^sub>n\<^sub>i = 0.60 F\<^sub>y\<^sub>i t\<^sub>i l\<^sub>i\<close> per part, with the table's factors
  (\<open>\<Omega>\<close> = 1.50, \<open>\<phi>\<close> = 1.00), or DimensionalityError.
\<close>

theorem connected_elem_shear_yield_refines:
  "connected_elem_shear_yield_str m t1 l1 y1 t2 l2 y2 =
     (if has_dim t1 Length \<and> has_dim l1 Length \<and> has_dim y1 Stress
         \<and> has_dim t2 Length \<and> has_dim l2 Length \<and> has_dim y2 Stress
      then design_policy_pair m
        (0.60 * magnitude_in y1 Ksi * (magnitude_in t1 Inch * magnitude_in l1 Inch),
         0.60 * magnitude_in y2 Ksi * (magnitude_in t2 Inch * magnitude_in l2 Inch))
        (asd_factor ElemShearYield) (lrfd_factor ElemShearYield)
      else Inl DimensionalityError)"
  by (simp add: connected_elem_shear_yield_str_eq)

text \<open>
  C6: connected_elem_shear_rupture_str implements the contract for element shear
  rupture: the net width deducts \<open>(d + 0.063 in)\<close> per bolt, \<open>R\<^sub>n\<^sub>i = 0.60 F\<^sub>u\<^sub>i t\<^sub>i w\<^sub>n\<^sub>i\<close>,
  with \<open>\<Omega>\<close> = 2.00 and \<open>\<phi>\<close> = 0.75.
\<close>

theorem connected_elem_shear_rupture_refines:
  "connected_elem_shear_rupture_str m d n t1 l1 u1 t2 l2 u2 =
     (if has_dim d Length \<and> has_dim t1 Length \<and> has_dim l1 Length \<and> has_dim u1 Stress
         \<and> has_dim t2 Length \<and> has_dim l2 Length \<and> has_dim u2 Stress
      then design_policy_pair m
        (0.60 * magnitude_in u1 Ksi * (magnitude_in t1 Inch
           * (magnitude_in l1 Inch - (magnitude_in d Inch + 0.063) * of_int n)),
         0.60 * magnitude_in u2 Ksi * (magnitude_in t2 Inch
           * (magnitude_in l2 Inch - (magnitude_in d Inch + 0.063) * of_int n)))
        (asd_factor ElemShearRupture) (lrfd_factor ElemShearRupture)
      else Inl DimensionalityError)"
  by (simp add: connected_elem_shear_rupture_str_eq)

text \<open>
  C7: connected_elem_tensile_yield_str implements the contract for element tensile
  yield: \<open>R\<^sub>n\<^sub>i = F\<^sub>y\<^sub>i t\<^sub>i l\<^sub>i\<close> (no 0.60 factor), with \<open>\<Omega>\<close> = 1.67 and \<open>\<phi>\<close> = 0.90.
\<close>

theorem connected_elem_tensile_yield_refines:
  "connected_elem_tensile_yield_str m t1 l1 y1 t2 l2 y2 =
     (if has_dim t1 Length \<and> has_dim l1 Length \<and> has_dim y1 Stress
         \<and> has_dim t2 Length \<and> has_dim l2 Length \<and> has_dim y2 Stress
      then design_policy_pair m
        (magnitude_in y1 Ksi * (magnitude_in t1 Inch * magnitude_in l1 Inch),
         magnitude_in y2 Ksi * (magnitude_in t2 Inch * magnitude_in l2 Inch))
        (asd_factor ElemTensileYield) (lrfd_factor ElemTensileYield)
      else Inl DimensionalityError)"
  by (simp add: connected_elem_tensile_yield_str_eq)

text \<open>
  C8: connected_elem_tensile_rupture_str implements the contract for element tensile
  rupture: the same net width as shear rupture, \<open>R\<^sub>n\<^sub>i = F\<^sub>u\<^sub>i t\<^sub>i w\<^sub>n\<^sub>i U\<close> with the
  caller's shear-lag factor \<open>U\<close>, and \<open>\<Omega>\<close> = 2.00, \<open>\<phi>\<close> = 0.75.
\<close>

theorem connected_elem_tensile_rupture_refines:
  "connected_elem_tensile_rupture_str m d n s t1 l1 u1 t2 l2 u2 =
     (if has_dim d Length \<and> has_dim t1 Length \<and> has_dim l1 Length \<and> has_dim u1 Stress
         \<and> has_dim t2 Length \<and> has_dim l2 Length \<and> has_dim u2 Stress
      then design_policy_pair m
        (magnitude_in u1 Ksi * (magnitude_in t1 Inch
           * (magnitude_in l1 Inch - (magnitude_in d Inch + 0.063) * of_int n)) * s,
         magnitude_in u2 Ksi * (magnitude_in t2 Inch
           * (magnitude_in l2 Inch - (magnitude_in d Inch + 0.063) * of_int n)) * s)
        (asd_factor ElemTensileRupture) (lrfd_factor ElemTensileRupture)
      else Inl DimensionalityError)"
  by (simp add: connected_elem_tensile_rupture_str_eq)

section \<open>Functional properties\<close>

text \<open>
  C25: the two parts are computed independently and alike in all four element
  calculators: swapping part 1 and part 2 swaps the two results.
\<close>

theorem element_parts_swap:
  "connected_elem_shear_yield_str m t2 l2 y2 t1 l1 y1 =
     map_sum id prod.swap (connected_elem_shear_yield_str m t1 l1 y1 t2 l2 y2) \<and>
   connected_elem_shear_rupture_str m d n t2 l2 u2 t1 l1 u1 =
     map_sum id prod.swap (connected_elem_shear_rupture_str m d n t1 l1 u1 t2 l2 u2) \<and>
   connected_elem_tensile_yield_str m t2 l2 y2 t1 l1 y1 =
     map_sum id prod.swap (connected_elem_tensile_yield_str m t1 l1 y1 t2 l2 y2) \<and>
   connected_elem_tensile_rupture_str m d n s t2 l2 u2 t1 l1 u1 =
     map_sum id prod.swap (connected_elem_tensile_rupture_str m d n s t1 l1 u1 t2 l2 u2)"
  by (intro conjI)
     (simp_all add: connected_elem_shear_yield_str_eq connected_elem_shear_rupture_str_eq
       connected_elem_tensile_yield_str_eq connected_elem_tensile_rupture_str_eq
       design_policy_pair_def conj_comms)

text \<open>
  C22: tensile rupture is shear rupture rescaled by \<open>U/0.60\<close>, for every input and both
  methods, errors included: the two functions compute the same net area and use the
  same factors, and differ only in \<open>0.60\<close> against the shear-lag factor.
\<close>

theorem tensile_rupture_shear_rupture_ratio:
  "connected_elem_tensile_rupture_str m d n s t1 l1 u1 t2 l2 u2 =
     map_sum id (\<lambda>(a, b). (s / 0.6 * a, s / 0.6 * b))
       (connected_elem_shear_rupture_str m d n t1 l1 u1 t2 l2 u2)"
  by (simp add: connected_elem_tensile_rupture_str_eq connected_elem_shear_rupture_str_eq
      design_policy_pair_def)

text \<open>
  C23: with no bolt holes, shear rupture is exactly 0.75 times shear yield computed
  with the ultimate strength in place of the yield strength, under ASD
  (\<open>1.50/2.00\<close>) and LRFD (\<open>0.75/1.00\<close>) alike.
\<close>

theorem shear_rupture_gross_section:
  assumes "has_dim d Length"
  shows "connected_elem_shear_rupture_str m d 0 t1 l1 u1 t2 l2 u2 =
     map_sum id (\<lambda>(a, b). (0.75 * a, 0.75 * b)) (connected_elem_shear_yield_str m t1 l1 u1 t2 l2 u2)"
  using assms
  by (simp add: connected_elem_shear_rupture_str_eq connected_elem_shear_yield_str_eq
      design_policy_pair_def)

section \<open>Bounds\<close>

text \<open>
  C27: for a part of positive thickness and strength, the shear rupture strength the
  calculator returns is non-positive exactly when the holes use up the part's length
  (\<open>l \<le> (d + 0.063 in) n\<close>); the code does not flag this case.
\<close>

theorem shear_rupture_nonpositive:
  assumes "connected_elem_shear_rupture_str m d n t1 l1 u1 t2 l2 u2 = Inr (r1, r2)"
    and "0 < magnitude_in t1 Inch" and "0 < magnitude_in u1 Ksi"
  shows "r1 \<le> 0 \<longleftrightarrow> magnitude_in l1 Inch \<le> (magnitude_in d Inch + 0.063) * of_int n"
proof -
  from connected_elem_shear_rupture_str_Inr [OF assms(1)]
  have r1: "r1 = 0.6 * design_factor m 2 0.75 * (net_width l1 d n * magnitude_in t1 Inch * magnitude_in u1 Ksi)"
    by (rule conjunct1)
  have "r1 \<le> 0 \<longleftrightarrow> net_width l1 d n \<le> 0"
    unfolding r1 using rupture_factor_pos assms(2,3) by (rule pos_mult_nonpos_iff)
  then show ?thesis by simp
qed

text \<open>
  C30: adding bolts never increases a part's shear rupture strength (for a
  non-negative diameter, thickness and strength).
\<close>

theorem shear_rupture_antimono:
  assumes "connected_elem_shear_rupture_str m d n t1 l1 u1 t2 l2 u2 = Inr (r1, r2)"
    and "connected_elem_shear_rupture_str m d n' t1 l1 u1 t2 l2 u2 = Inr (r1', r2')"
    and "n \<le> n'" and "0 \<le> magnitude_in d Inch"
    and "0 \<le> magnitude_in t1 Inch" and "0 \<le> magnitude_in u1 Ksi"
  shows "r1' \<le> r1"
proof -
  from connected_elem_shear_rupture_str_Inr [OF assms(1)]
  have r1: "r1 = 0.6 * design_factor m 2 0.75 * (net_width l1 d n * magnitude_in t1 Inch * magnitude_in u1 Ksi)"
    by (rule conjunct1)
  from connected_elem_shear_rupture_str_Inr [OF assms(2)]
  have r1': "r1' = 0.6 * design_factor m 2 0.75 * (net_width l1 d n' * magnitude_in t1 Inch * magnitude_in u1 Ksi)"
    by (rule conjunct1)
  have "(magnitude_in d Inch + 0.063) * of_int n \<le> (magnitude_in d Inch + 0.063) * of_int n'"
    using assms(3,4) by (simp add: mult_left_mono)
  then have "net_width l1 d n' \<le> net_width l1 d n" by simp
  with less_imp_le [OF rupture_factor_pos] assms(5,6) show ?thesis
    unfolding r1 r1' by (rule pos_mult_nonneg_mono)
qed

section \<open>Witnesses\<close>

text \<open>A 3/4 in bolt: the no-hole identity applies.\<close>

theorem shear_rupture_gross_section_witness:
  "has_dim (Quantity 0.75 Inch) Length \<and>
   connected_elem_shear_rupture_str ''LRFD'' (Quantity 0.75 Inch) 0
       (Quantity 0.5 Inch) (Quantity 6 Inch) (Quantity 58 Ksi)
       (Quantity 0.375 Inch) (Quantity 6 Inch) (Quantity 58 Ksi) =
     map_sum id (\<lambda>(a, b). (0.75 * a, 0.75 * b))
       (connected_elem_shear_yield_str ''LRFD'' (Quantity 0.5 Inch) (Quantity 6 Inch) (Quantity 58 Ksi)
          (Quantity 0.375 Inch) (Quantity 6 Inch) (Quantity 58 Ksi))"
proof -
  have h: "has_dim (Quantity 0.75 Inch) Length" by simp
  show ?thesis by (rule conjI [OF h shear_rupture_gross_section [OF h]])
qed

text \<open>
  Eight 3/4 in bolts in a 6 in long, 1/2 in plate of 58 ksi steel: the holes take
  6.504 in, the net width is negative and so is the returned strength.
\<close>

theorem shear_rupture_nonpositive_witness:
  "connected_elem_shear_rupture_str ''ASD'' (Quantity 0.75 Inch) 8
       (Quantity 0.5 Inch) (Quantity 6 Inch) (Quantity 58 Ksi)
       (Quantity 0.375 Inch) (Quantity 6 Inch) (Quantity 58 Ksi) = Inr (-4.3848, -3.2886)
   \<and> 0 < magnitude_in (Quantity 0.5 Inch) Inch \<and> 0 < magnitude_in (Quantity 58 Ksi) Ksi
   \<and> ((-4.3848::real) \<le> 0 \<longleftrightarrow>
        magnitude_in (Quantity 6 Inch) Inch \<le> (magnitude_in (Quantity 0.75 Inch) Inch + 0.063) * of_int 8)"
proof -
  have r: "connected_elem_shear_rupture_str ''ASD'' (Quantity 0.75 Inch) 8
       (Quantity 0.5 Inch) (Quantity 6 Inch) (Quantity 58 Ksi)
       (Quantity 0.375 Inch) (Quantity 6 Inch) (Quantity 58 Ksi) = Inr (-4.3848, -3.2886)"
    by (simp add: connected_elem_shear_rupture_str_eq)
  have t: "0 < magnitude_in (Quantity 0.5 Inch) Inch" and u: "0 < magnitude_in (Quantity 58 Ksi) Ksi"
    by simp_all
  show ?thesis using r t u shear_rupture_nonpositive [OF r t u] by blast
qed

text \<open>Two and then four 3/4 in bolts in the same plates.\<close>

theorem shear_rupture_antimono_witness:
  "connected_elem_shear_rupture_str ''ASD'' (Quantity 0.75 Inch) 2
       (Quantity 0.5 Inch) (Quantity 6 Inch) (Quantity 58 Ksi)
       (Quantity 0.375 Inch) (Quantity 6 Inch) (Quantity 58 Ksi) = Inr (38.0538, 28.54035)
   \<and> connected_elem_shear_rupture_str ''ASD'' (Quantity 0.75 Inch) 4
       (Quantity 0.5 Inch) (Quantity 6 Inch) (Quantity 58 Ksi)
       (Quantity 0.375 Inch) (Quantity 6 Inch) (Quantity 58 Ksi) = Inr (23.9076, 17.9307)
   \<and> (2::int) \<le> 4 \<and> (23.9076::real) \<le> 38.0538"
proof -
  have a: "connected_elem_shear_rupture_str ''ASD'' (Quantity 0.75 Inch) 2
       (Quantity 0.5 Inch) (Quantity 6 Inch) (Quantity 58 Ksi)
       (Quantity 0.375 Inch) (Quantity 6 Inch) (Quantity 58 Ksi) = Inr (38.0538, 28.54035)"
    by (simp add: connected_elem_shear_rupture_str_eq)
  have b: "connected_elem_shear_rupture_str ''ASD'' (Quantity 0.75 Inch) 4
       (Quantity 0.5 Inch) (Quantity 6 Inch) (Quantity 58 Ksi)
       (Quantity 0.375 Inch) (Quantity 6 Inch) (Quantity 58 Ksi) = Inr (23.9076, 17.9307)"
    by (simp add: connected_elem_shear_rupture_str_eq)
  have "(23.9076::real) \<le> 38.0538"
    using shear_rupture_antimono [OF a b] by simp
  with a b show ?thesis by simp
qed

end
