(* ===== verification/Weld.thy ===== *)
theory Weld
  imports Units DesignMethod
begin

text \<open>
  WeldLimitStates, from \<open>src/Steel/weld.py\<close>.  \<open>min_weld_size\<close> is a step function of
  the thinner part, returned as a bare float in inches; its \<open>if/elif\<close> chain has no
  \<open>else\<close>, so falling through would return \<open>None\<close>: the result is a \<open>real option\<close>.
  \<open>weld_material_strength\<close> takes the weld size in sixteenths of an inch and uses the
  throat factor \<open>math.sqrt(2)/2\<close>.  \<open>weld_rupture_strength\<close> uses the throat factor
  \<open>0.707\<close>, divides by the base metal's strength and by the required thickness
  (\<open>ZeroDivisionError\<close> when either is zero), assigns the required thicknesses only for
  one or two weld sides (any other count leaves \<open>t1_min\<close> unbound, and reading it
  raises \<open>UnboundLocalError\<close>), and only then calls \<open>weld_material_strength\<close>, whose
  method chain may raise \<open>ValueError\<close>.  The lemmas give the normal forms, the
  governing rule of weld rupture and its refinement of the spec's "lesser of weld and
  base metal" contract, the error paths, bounds and monotonicity, and the properties
  of the size chain.
\<close>

definition min_weld_size :: "quantity \<Rightarrow> quantity \<Rightarrow> inches option result" where
  "min_weld_size part1_t part2_t =
     bindE (quantity_to part1_t Inch) (\<lambda>part1_t.
     bindE (quantity_to part2_t Inch) (\<lambda>part2_t.
       let t_min = min (magnitude part1_t) (magnitude part2_t)
       in Inr (if t_min < 0.25 then Some 0.1250
               else if 0.25 \<le> t_min \<and> t_min < 0.5 then Some 0.1875
               else if 0.5 \<le> t_min \<and> t_min < 0.75 then Some 0.2500
               else if 0.75 \<le> t_min then Some 0.3125
               else None)))"

definition weld_material_strength :: "string \<Rightarrow> real \<Rightarrow> quantity \<Rightarrow> int \<Rightarrow> kips result" where
  "weld_material_strength design_method weld_size weld_length weld_sides =
     bindE (quantity_to weld_length Inch) (\<lambda>weld_length.
       let r_n = 0.60 * 70 * (sqrt 2 / 2) * (weld_size / 16) * magnitude weld_length * of_int weld_sides
       in if design_method = ''ASD'' then (let fos = 2.00 in Inr (r_n / fos))
          else if design_method = ''LRFD'' then (let str_reduction = 0.75 in Inr (str_reduction * r_n))
          else Inl InvalidDesignMethod)"

definition weld_rupture_strength ::
  "string \<Rightarrow> real \<Rightarrow> quantity \<Rightarrow> int \<Rightarrow> quantity \<Rightarrow> quantity \<Rightarrow> quantity \<Rightarrow> quantity
     \<Rightarrow> kips result" where
  "weld_rupture_strength design_method weld_size weld_length weld_sides
       part1_t part1_ult part2_t part2_ult =
     bindE (quantity_to weld_length Inch) (\<lambda>weld_length.
     bindE (quantity_to part1_t Inch) (\<lambda>part1_t.
     bindE (quantity_to part2_t Inch) (\<lambda>part2_t.
     bindE (quantity_to part1_ult Ksi) (\<lambda>part1_ult.
     bindE (quantity_to part2_ult Ksi) (\<lambda>part2_ult.
       let throat_area = 0.707 * (weld_size / 16);
           weld_strength_per_length = 0.60 * 70 * throat_area
       in bindE
         (if weld_sides = 1 then
            bindE (py_div weld_strength_per_length (0.6 * magnitude part1_ult)) (\<lambda>t1_min.
            bindE (py_div weld_strength_per_length (0.6 * magnitude part2_ult)) (\<lambda>t2_min.
              Inr (t1_min, t2_min)))
          else if weld_sides = 2 then
            bindE (py_div (2 * weld_strength_per_length) (0.6 * magnitude part1_ult)) (\<lambda>t1_min.
            bindE (py_div (2 * weld_strength_per_length) (0.6 * magnitude part2_ult)) (\<lambda>t2_min.
              Inr (t1_min, t2_min)))
          else Inl UnboundLocalError)
         (\<lambda>(t1_min, t2_min).
       bindE (py_div (magnitude part1_t) t1_min) (\<lambda>reduction_1.
       bindE (py_div (magnitude part2_t) t2_min) (\<lambda>reduction_2.
       bindE (weld_material_strength design_method weld_size weld_length weld_sides)
         (\<lambda>weld_mat_strength.
          if reduction_1 < 1 \<or> reduction_2 < 1
          then Inr (weld_mat_strength * min reduction_1 reduction_2)
          else Inr weld_mat_strength)))))))))"

declare min_weld_size_def [strength_defs] weld_material_strength_def [strength_defs]
  weld_rupture_strength_def [strength_defs]

section \<open>Normal forms\<close>

text \<open>The weld metal's strength per inch of length, with the \<open>0.707\<close> throat factor.\<close>

abbreviation weld_strength_per_length :: "real \<Rightarrow> real" where
  "weld_strength_per_length ws \<equiv> 0.60 * 70 * (0.707 * (ws / 16))"

text \<open>The reduction factor of a part: its thickness over the thickness it needs.\<close>

abbreviation reduction :: "real \<Rightarrow> int \<Rightarrow> quantity \<Rightarrow> quantity \<Rightarrow> real" where
  "reduction ws s t u \<equiv>
     magnitude_in t Inch / (of_int s * weld_strength_per_length ws / (0.6 * magnitude_in u Ksi))"

text \<open>The size chain of \<open>min_weld_size\<close>, as a function of the thinner part.\<close>

abbreviation weld_size_chain :: "real \<Rightarrow> real option" where
  "weld_size_chain t_min \<equiv>
     (if t_min < 0.25 then Some 0.1250
      else if 0.25 \<le> t_min \<and> t_min < 0.5 then Some 0.1875
      else if 0.5 \<le> t_min \<and> t_min < 0.75 then Some 0.2500
      else if 0.75 \<le> t_min then Some 0.3125
      else None)"

lemma min_weld_size_eq:
  "min_weld_size t1 t2 =
     (if has_dim t1 Length \<and> has_dim t2 Length
      then Inr (weld_size_chain (min (magnitude_in t1 Inch) (magnitude_in t2 Inch)))
      else Inl DimensionalityError)"
  by (simp add: min_weld_size_def quantity_simps Let_def)

lemma weld_material_strength_eq:
  "weld_material_strength m ws l s =
     (if has_dim l Length
      then design_policy m (0.60 * 70 * (sqrt 2 / 2) * (ws / 16) * magnitude_in l Inch * of_int s) 2 0.75
      else Inl DimensionalityError)"
  by (simp add: weld_material_strength_def quantity_simps design_policy_def Let_def)

lemma weld_rupture_strength_dims:
  assumes "\<not> (has_dim l Length \<and> has_dim t1 Length \<and> has_dim t2 Length
               \<and> has_dim u1 Stress \<and> has_dim u2 Stress)"
  shows "weld_rupture_strength m ws l s t1 u1 t2 u2 = Inl DimensionalityError"
  using assms by (auto simp: weld_rupture_strength_def quantity_simps)

lemma weld_rupture_strength_ok:
  assumes "has_dim l Length" "has_dim t1 Length" "has_dim t2 Length"
    "has_dim u1 Stress" "has_dim u2 Stress" "s = 1 \<or> s = 2"
    "magnitude_in u1 Ksi \<noteq> 0" "magnitude_in u2 Ksi \<noteq> 0" "ws \<noteq> 0"
  shows "weld_rupture_strength m ws l s t1 u1 t2 u2 =
     bindE (weld_material_strength m ws l s) (\<lambda>w.
       if reduction ws s t1 u1 < 1 \<or> reduction ws s t2 u2 < 1
       then Inr (w * min (reduction ws s t1 u1) (reduction ws s t2 u2)) else Inr w)"
  using assms
  by (auto simp: weld_rupture_strength_def quantity_simps weld_material_strength_eq Let_def
      ac_simps cong: if_cong)

lemma weld_size_chain_total:
  "\<exists>w \<in> {0.125, 0.1875, 0.25, 0.3125}. weld_size_chain t = Some w"
  by auto

lemma weld_size_chain_mono:
  "t \<le> t' \<Longrightarrow> weld_size_chain t = Some w \<Longrightarrow> weld_size_chain t' = Some w' \<Longrightarrow> w \<le> w'"
  by (auto split: if_splits)

lemma governing_min:
  fixes w a b :: real
  shows "(if a < 1 \<or> b < 1 then Inr (w * min a b) else Inr w) = (Inr (w * min 1 (min a b)) :: 'e + real)"
  by (auto simp: min_def)

lemma weld_rupture_strength_Inr:
  assumes "weld_rupture_strength m ws l s t1 u1 t2 u2 = Inr r"
  shows "\<exists>w. weld_material_strength m ws l s = Inr w
     \<and> r = w * min 1 (min (reduction ws s t1 u1) (reduction ws s t2 u2))
     \<and> has_dim l Length \<and> has_dim t1 Length \<and> has_dim t2 Length
     \<and> has_dim u1 Stress \<and> has_dim u2 Stress \<and> (s = 1 \<or> s = 2)
     \<and> magnitude_in u1 Ksi \<noteq> 0 \<and> magnitude_in u2 Ksi \<noteq> 0 \<and> ws \<noteq> 0"
proof -
  have dims: "has_dim l Length \<and> has_dim t1 Length \<and> has_dim t2 Length
      \<and> has_dim u1 Stress \<and> has_dim u2 Stress"
  proof (rule ccontr)
    assume "\<not> ?thesis"
    then have "weld_rupture_strength m ws l s t1 u1 t2 u2 = Inl DimensionalityError"
      by (rule weld_rupture_strength_dims)
    with assms show False by simp
  qed
  have sides: "s = 1 \<or> s = 2"
  proof (rule ccontr)
    assume "\<not> ?thesis"
    with dims have "weld_rupture_strength m ws l s t1 u1 t2 u2 = Inl UnboundLocalError"
      by (simp add: weld_rupture_strength_def quantity_simps Let_def)
    with assms show False by simp
  qed
  have nz: "magnitude_in u1 Ksi \<noteq> 0 \<and> magnitude_in u2 Ksi \<noteq> 0 \<and> ws \<noteq> 0"
    using assms dims sides
    by (auto simp: weld_rupture_strength_def quantity_simps Let_def py_div_def split: if_splits)
  have "weld_rupture_strength m ws l s t1 u1 t2 u2 =
     bindE (weld_material_strength m ws l s) (\<lambda>w.
       Inr (w * min 1 (min (reduction ws s t1 u1) (reduction ws s t2 u2))))"
  proof -
    from dims nz have h: "has_dim l Length" "has_dim t1 Length" "has_dim t2 Length"
      "has_dim u1 Stress" "has_dim u2 Stress"
      "magnitude_in u1 Ksi \<noteq> 0" "magnitude_in u2 Ksi \<noteq> 0" "ws \<noteq> 0"
      by simp_all
    show ?thesis
      by (simp only: weld_rupture_strength_ok [OF h(1-5) sides h(6-8)] governing_min)
  qed
  with assms dims sides nz show ?thesis
    by (auto simp: bindE_eq_Inr_iff)
qed

lemma weld_times_reduction:
  assumes "s = 1 \<or> s = 2" "magnitude_in u Ksi \<noteq> 0" "ws \<noteq> 0"
  shows "0.60 * 70 * (sqrt 2 / 2) * (ws / 16) * L * of_int s * reduction ws s t u
       = 0.6 * magnitude_in u Ksi * magnitude_in t Inch * L * (sqrt 2 / 2 / 0.707)"
proof -
  have "(of_int s :: real) \<noteq> 0" using assms(1) by auto
  with assms(2,3) show ?thesis by (simp add: field_simps)
qed

lemma weld_material_min_reduction:
  assumes "s = 1 \<or> s = 2" "magnitude_in u1 Ksi \<noteq> 0" "magnitude_in u2 Ksi \<noteq> 0" "0 < ws" "0 \<le> L"
  shows "0.60 * 70 * (sqrt 2 / 2) * (ws / 16) * L * of_int s
           * min 1 (min (reduction ws s t1 u1) (reduction ws s t2 u2))
       = min (0.60 * 70 * (sqrt 2 / 2) * (ws / 16) * L * of_int s)
           (min (0.6 * magnitude_in u1 Ksi * magnitude_in t1 Inch * L * (sqrt 2 / 2 / 0.707))
                (0.6 * magnitude_in u2 Ksi * magnitude_in t2 Inch * L * (sqrt 2 / 2 / 0.707)))"
proof -
  have ws: "ws \<noteq> 0" using assms(4) by simp
  have "0 \<le> (of_int s :: real)" using assms(1) by auto
  with assms(4,5) have nn: "0 \<le> 0.60 * 70 * (sqrt 2 / 2) * (ws / 16) * L * (of_int s :: real)"
    by simp
  show ?thesis
    by (simp only: min_mult_distrib_left if_P [OF nn] mult_1_right
        weld_times_reduction [OF assms(1,2) ws] weld_times_reduction [OF assms(1,3) ws])
qed

lemma weld_rupture_strength_bind:
  assumes "has_dim l Length" "has_dim t1 Length" "has_dim t2 Length"
    "has_dim u1 Stress" "has_dim u2 Stress" "s = 1 \<or> s = 2"
    "magnitude_in u1 Ksi \<noteq> 0" "magnitude_in u2 Ksi \<noteq> 0" "ws \<noteq> 0"
  shows "weld_rupture_strength m ws l s t1 u1 t2 u2 =
     design_policy m (0.60 * 70 * (sqrt 2 / 2) * (ws / 16) * magnitude_in l Inch * of_int s
       * min 1 (min (reduction ws s t1 u1) (reduction ws s t2 u2))) 2 0.75"
  by (simp only: weld_rupture_strength_ok [OF assms] governing_min weld_material_strength_eq
      if_P [OF assms(1)] design_policy_bind_scale)

section \<open>Refinement of the design-method contract\<close>

text \<open>
  C9: weld_material_strength implements the DesignMethodPolicy contract for weld
  metal: \<open>R\<^sub>n = 0.60 \<cdot> 70 ksi \<cdot> (\<surd>2/2) \<cdot> (w/16 in) \<cdot> L \<cdot> sides\<close>, with
  \<open>\<Omega>\<close> = 2.00 and \<open>\<phi>\<close> = 0.75, or DimensionalityError when the length is not a length.
\<close>

theorem weld_material_strength_refines:
  "weld_material_strength m ws l s =
     (if has_dim l Length
      then design_policy m (0.60 * 70 * (sqrt 2 / 2) * (ws / 16) * magnitude_in l Inch * of_int s)
             (asd_factor WeldMaterial) (lrfd_factor WeldMaterial)
      else Inl DimensionalityError)"
  by (simp add: weld_material_strength_eq)

section \<open>Weld rupture: which of weld and base metal governs\<close>

text \<open>
  C10: on every input that reaches the method chain (lengths and strengths with the
  right dimensions, one or two weld sides, non-zero base-metal strengths and weld
  size), weld_rupture_strength is the weld-metal strength scaled by
  \<open>min 1 (min r\<^sub>1 r\<^sub>2)\<close>, where \<open>r\<^sub>i\<close> is part \<open>i\<close>'s thickness over the thickness
  \<open>sides \<cdot> 0.60 \<cdot> 70 \<cdot> 0.707 (w/16) / (0.6 F\<^sub>u\<^sub>i)\<close> that matches the weld.
\<close>

theorem weld_rupture_strength_governing:
  assumes "has_dim l Length" "has_dim t1 Length" "has_dim t2 Length"
    "has_dim u1 Stress" "has_dim u2 Stress" "s = 1 \<or> s = 2"
    "magnitude_in u1 Ksi \<noteq> 0" "magnitude_in u2 Ksi \<noteq> 0" "ws \<noteq> 0"
  shows "weld_rupture_strength m ws l s t1 u1 t2 u2 =
     bindE (weld_material_strength m ws l s) (\<lambda>w.
       Inr (w * min 1 (min (reduction ws s t1 u1) (reduction ws s t2 u2))))"
  by (simp only: weld_rupture_strength_ok [OF assms] governing_min)

text \<open>
  C11: when both parts are at least as thick as the weld requires, weld
  rupture strength is exactly weld_material_strength (spec section 8).
\<close>

theorem weld_rupture_strength_weld_governs:
  assumes "has_dim l Length" "has_dim t1 Length" "has_dim t2 Length"
    "has_dim u1 Stress" "has_dim u2 Stress" "s = 1 \<or> s = 2"
    "0 < magnitude_in u1 Ksi" "0 < magnitude_in u2 Ksi" "0 < ws"
    "of_int s * weld_strength_per_length ws / (0.6 * magnitude_in u1 Ksi) \<le> magnitude_in t1 Inch"
    "of_int s * weld_strength_per_length ws / (0.6 * magnitude_in u2 Ksi) \<le> magnitude_in t2 Inch"
  shows "weld_rupture_strength m ws l s t1 u1 t2 u2 = weld_material_strength m ws l s"
proof -
  have nz: "magnitude_in u1 Ksi \<noteq> 0" "magnitude_in u2 Ksi \<noteq> 0" "ws \<noteq> 0"
    using assms(7,8,9) by simp_all
  have s_pos: "0 < (of_int s :: real)"
    using assms(6) by auto
  have r1: "1 \<le> reduction ws s t1 u1"
  proof -
    have pos: "0 < of_int s * weld_strength_per_length ws / (0.6 * magnitude_in u1 Ksi)"
      using s_pos assms(7,9) by simp
    show ?thesis
      using assms(10) by (simp only: le_divide_eq_1_pos [OF pos])
  qed
  have r2: "1 \<le> reduction ws s t2 u2"
  proof -
    have pos: "0 < of_int s * weld_strength_per_length ws / (0.6 * magnitude_in u2 Ksi)"
      using s_pos assms(8,9) by simp
    show ?thesis
      using assms(11) by (simp only: le_divide_eq_1_pos [OF pos])
  qed
  have "weld_rupture_strength m ws l s t1 u1 t2 u2 =
     bindE (weld_material_strength m ws l s) (\<lambda>w.
       Inr (w * min 1 (min (reduction ws s t1 u1) (reduction ws s t2 u2))))"
    by (simp only: weld_rupture_strength_ok [OF assms(1-6) nz] governing_min)
  also have "\<dots> = weld_material_strength m ws l s"
    using r1 r2 by simp
  finally show ?thesis .
qed

text \<open>
  C12: weld_rupture_strength implements the spec's contract "the lesser of weld metal
  and base metal rupture": for well-dimensioned inputs with one or two sides, non-zero
  base-metal strengths, a positive weld size and a non-negative length, it is the
  DesignMethodPolicy (weld-metal factors) applied to the minimum of the weld-metal
  nominal strength and each part's base-metal rupture strength \<open>0.6 F\<^sub>u t L\<close>, the
  latter scaled by \<open>(\<surd>2/2)/0.707\<close> because the two functions hard-code different
  throat factors.  The side count cancels from the base-metal terms.
\<close>

theorem weld_rupture_strength_lesser:
  assumes "has_dim l Length" "has_dim t1 Length" "has_dim t2 Length"
    "has_dim u1 Stress" "has_dim u2 Stress" "s = 1 \<or> s = 2"
    "magnitude_in u1 Ksi \<noteq> 0" "magnitude_in u2 Ksi \<noteq> 0" "0 < ws" "0 \<le> magnitude_in l Inch"
  shows "weld_rupture_strength m ws l s t1 u1 t2 u2 =
     design_policy m
       (min (0.60 * 70 * (sqrt 2 / 2) * (ws / 16) * magnitude_in l Inch * of_int s)
         (min (0.6 * magnitude_in u1 Ksi * magnitude_in t1 Inch * magnitude_in l Inch * (sqrt 2 / 2 / 0.707))
              (0.6 * magnitude_in u2 Ksi * magnitude_in t2 Inch * magnitude_in l Inch * (sqrt 2 / 2 / 0.707))))
       (asd_factor WeldMaterial) (lrfd_factor WeldMaterial)"
proof -
  have ws: "ws \<noteq> 0" using assms(9) by simp
  have "asd_factor WeldMaterial = 2" "lrfd_factor WeldMaterial = 0.75" by simp_all
  then show ?thesis
    by (simp only: weld_rupture_strength_bind [OF assms(1-8) ws]
        weld_material_min_reduction [OF assms(6-10)])
qed

section \<open>Weld rupture: errors\<close>

text \<open>
  C16: with a weld side count other than 1 or 2 (and well-dimensioned inputs)
  weld_rupture_strength raises UnboundLocalError, under every design method, valid or
  not: no branch assigns \<open>t1_min\<close>, and the method chain is never reached.  The spec
  asks for an InvalidWeldSides error.
\<close>

theorem weld_rupture_strength_bad_sides:
  assumes "has_dim l Length" "has_dim t1 Length" "has_dim t2 Length"
    "has_dim u1 Stress" "has_dim u2 Stress" "s \<noteq> 1" "s \<noteq> 2"
  shows "weld_rupture_strength m ws l s t1 u1 t2 u2 = Inl UnboundLocalError"
  using assms by (simp add: weld_rupture_strength_def quantity_simps Let_def)

text \<open>
  C17: with one or two sides, a zero base-metal strength or a zero weld size makes
  weld_rupture_strength raise ZeroDivisionError (dividing by \<open>0.6 F\<^sub>u\<close> or by a zero
  required thickness), before the design method is looked at.
\<close>

theorem weld_rupture_strength_zero_division:
  assumes "has_dim l Length" "has_dim t1 Length" "has_dim t2 Length"
    "has_dim u1 Stress" "has_dim u2 Stress" "s = 1 \<or> s = 2"
    "magnitude_in u1 Ksi = 0 \<or> magnitude_in u2 Ksi = 0 \<or> ws = 0"
  shows "weld_rupture_strength m ws l s t1 u1 t2 u2 = Inl ZeroDivisionError"
  using assms
  by (auto simp: weld_rupture_strength_def quantity_simps Let_def py_div_def split: if_splits)

section \<open>Weld rupture: bounds\<close>

text \<open>
  C31: a weld's rupture strength never exceeds its weld-metal strength when the latter
  is non-negative: the base metal can only reduce it.
\<close>

theorem weld_rupture_le_material:
  assumes "weld_rupture_strength m ws l s t1 u1 t2 u2 = Inr r"
    and "weld_material_strength m ws l s = Inr w" and "0 \<le> w"
  shows "r \<le> w"
proof -
  from weld_rupture_strength_Inr [OF assms(1)] assms(2)
  have r: "r = w * min 1 (min (reduction ws s t1 u1) (reduction ws s t2 u2))"
    by auto
  have "w * min 1 (min (reduction ws s t1 u1) (reduction ws s t2 u2)) \<le> w * 1"
    by (rule mult_left_mono [OF min.cobounded1 assms(3)])
  then show ?thesis by (simp add: r)
qed

text \<open>
  C32: a larger weld or thicker parts never give a smaller weld rupture strength (for
  positive base-metal strengths and weld size and a non-negative length): the result
  is monotone in the weld size and in each part's thickness.
\<close>

theorem weld_rupture_strength_mono:
  assumes "weld_rupture_strength m ws l s t1 u1 t2 u2 = Inr r"
    and "weld_rupture_strength m ws' l s t1' u1 t2' u2 = Inr r'"
    and "0 < ws" "ws \<le> ws'"
    and "magnitude_in t1 Inch \<le> magnitude_in t1' Inch" "magnitude_in t2 Inch \<le> magnitude_in t2' Inch"
    and "0 < magnitude_in u1 Ksi" "0 < magnitude_in u2 Ksi" "0 \<le> magnitude_in l Inch"
  shows "r \<le> r'"
proof -
  from weld_rupture_strength_Inr [OF assms(1)] have
    h: "has_dim l Length" "has_dim t1 Length" "has_dim t2 Length" "has_dim u1 Stress"
      "has_dim u2 Stress" "s = 1 \<or> s = 2"
    by blast+
  from weld_rupture_strength_Inr [OF assms(2)] have
    h': "has_dim t1' Length" "has_dim t2' Length"
    by blast+
  have nz: "magnitude_in u1 Ksi \<noteq> 0" "magnitude_in u2 Ksi \<noteq> 0" "ws \<noteq> 0" "0 < ws'" "ws' \<noteq> 0"
    using assms(3,4,7,8) by simp_all
  let ?k = "sqrt 2 / 2 / (0.707::real)"
  let ?L = "magnitude_in l Inch"
  have eq: "design_policy m
       (min (0.60 * 70 * (sqrt 2 / 2) * (w / 16) * ?L * of_int s)
         (min (0.6 * magnitude_in u1 Ksi * magnitude_in a Inch * ?L * ?k)
              (0.6 * magnitude_in u2 Ksi * magnitude_in b Inch * ?L * ?k))) 2 0.75
     = Inr v"
    if "weld_rupture_strength m w l s a u1 b u2 = Inr v" "has_dim a Length" "has_dim b Length"
      "0 < w" for w a b v
  proof -
    have w: "w \<noteq> 0" using that(4) by simp
    show ?thesis
      by (simp only: that(1) [symmetric] weld_rupture_strength_bind [OF h(1) that(2,3) h(4-6) nz(1,2) w]
          weld_material_min_reduction [OF h(6) nz(1,2) that(4) assms(9), symmetric])
  qed
  have k: "0 < ?k" by simp
  have s: "0 \<le> (of_int s :: real)" using h(6) by auto
  have le: "min (0.60 * 70 * (sqrt 2 / 2) * (ws / 16) * ?L * of_int s)
         (min (0.6 * magnitude_in u1 Ksi * magnitude_in t1 Inch * ?L * ?k)
              (0.6 * magnitude_in u2 Ksi * magnitude_in t2 Inch * ?L * ?k))
      \<le> min (0.60 * 70 * (sqrt 2 / 2) * (ws' / 16) * ?L * of_int s)
         (min (0.6 * magnitude_in u1 Ksi * magnitude_in t1' Inch * ?L * ?k)
              (0.6 * magnitude_in u2 Ksi * magnitude_in t2' Inch * ?L * ?k))"
  proof (intro min.mono)
    show "0.60 * 70 * (sqrt 2 / 2) * (ws / 16) * ?L * of_int s
        \<le> 0.60 * 70 * (sqrt 2 / 2) * (ws' / 16) * ?L * of_int s"
      using assms(4,9) s by (intro mult_right_mono mult_left_mono) simp_all
    show "0.6 * magnitude_in u1 Ksi * magnitude_in t1 Inch * ?L * ?k
        \<le> 0.6 * magnitude_in u1 Ksi * magnitude_in t1' Inch * ?L * ?k"
      using assms(5,7,9) k by (intro mult_right_mono mult_left_mono) simp_all
    show "0.6 * magnitude_in u2 Ksi * magnitude_in t2 Inch * ?L * ?k
        \<le> 0.6 * magnitude_in u2 Ksi * magnitude_in t2' Inch * ?L * ?k"
      using assms(6,8,9) k by (intro mult_right_mono mult_left_mono) simp_all
  qed
  show ?thesis
    by (rule design_policy_mono [OF _ _ le eq [OF assms(1) h(2,3) assms(3)] eq [OF assms(2) h' nz(4)]]) simp_all
qed

text \<open>
  C19: when part 1's base metal governs, the returned strength is the method's factor
  times part 1's base-metal shear rupture strength \<open>0.6 F\<^sub>u t L\<close> times
  \<open>(\<surd>2/2)/0.707\<close>, a factor greater than 1: the weld-metal strength uses \<open>\<surd>2/2\<close> but
  the reduction uses \<open>0.707\<close>, so the result slightly overstates the base metal.
\<close>

theorem weld_rupture_strength_throat_mismatch:
  assumes "weld_rupture_strength m ws l s t1 u1 t2 u2 = Inr r"
    and "reduction ws s t1 u1 < 1" and "reduction ws s t1 u1 \<le> reduction ws s t2 u2"
  shows "r = design_factor m 2 0.75
             * (0.6 * magnitude_in u1 Ksi * magnitude_in t1 Inch * magnitude_in l Inch)
             * (sqrt 2 / 2 / 0.707)
         \<and> 1 < sqrt 2 / 2 / 0.707"
proof -
  from weld_rupture_strength_Inr [OF assms(1)] obtain w where
    w: "weld_material_strength m ws l s = Inr w"
    and r: "r = w * min 1 (min (reduction ws s t1 u1) (reduction ws s t2 u2))"
    and dim: "has_dim l Length" and s: "s = 1 \<or> s = 2"
    and nz: "magnitude_in u1 Ksi \<noteq> 0" "ws \<noteq> 0"
    by blast
  from w dim have "design_policy m (0.60 * 70 * (sqrt 2 / 2) * (ws / 16) * magnitude_in l Inch * of_int s)
      2 0.75 = Inr w"
    by (simp add: weld_material_strength_eq)
  then have w_eq: "w = design_factor m 2 0.75
      * (0.60 * 70 * (sqrt 2 / 2) * (ws / 16) * magnitude_in l Inch * of_int s)"
    by (rule design_policy_Inr [THEN conjunct2])
  have "min 1 (min (reduction ws s t1 u1) (reduction ws s t2 u2)) = reduction ws s t1 u1"
    using assms(2,3) by simp
  with r have "r = w * reduction ws s t1 u1" by simp
  moreover have "(of_int s :: real) \<noteq> 0" using s by auto
  ultimately have "r = design_factor m 2 0.75
             * (0.6 * magnitude_in u1 Ksi * magnitude_in t1 Inch * magnitude_in l Inch)
             * (sqrt 2 / 2 / 0.707)"
    using nz by (simp add: w_eq field_simps)
  moreover have "1 < sqrt 2 / 2 / (0.707::real)"
    using sqrt2_half_gt_0707 by simp
  ultimately show ?thesis by blast
qed

section \<open>Weld material strength\<close>

text \<open>
  C35: weld_material_strength scales linearly with the number of weld sides and accepts
  any integer count (0, 3, negative), while weld_rupture_strength rejects all but 1
  and 2.
\<close>

theorem weld_material_sides_linear:
  "weld_material_strength m ws l s = map_sum id (\<lambda>r. of_int s * r) (weld_material_strength m ws l 1)"
  by (simp add: weld_material_strength_eq design_policy_def)

section \<open>Minimum weld size\<close>

text \<open>
  C18: min_weld_size always returns one of the four sizes 1/8, 3/16, 1/4, 5/16 in for
  thicknesses that are lengths: the chain never falls through to \<open>None\<close>, not even for
  zero or negative thicknesses, which get 1/8 in.
\<close>

theorem min_weld_size_total:
  assumes "has_dim t1 Length" and "has_dim t2 Length"
  shows "\<exists>w \<in> {0.125, 0.1875, 0.25, 0.3125}. min_weld_size t1 t2 = Inr (Some w)"
  using assms weld_size_chain_total by (simp add: min_weld_size_eq)

text \<open>C33: a thicker pair of parts never gets a smaller minimum weld size.\<close>

theorem min_weld_size_mono:
  assumes "min_weld_size t1 t2 = Inr (Some w)" and "min_weld_size t1' t2' = Inr (Some w')"
    and "magnitude_in t1 Inch \<le> magnitude_in t1' Inch"
    and "magnitude_in t2 Inch \<le> magnitude_in t2' Inch"
  shows "w \<le> w'"
proof -
  have "min (magnitude_in t1 Inch) (magnitude_in t2 Inch) \<le> min (magnitude_in t1' Inch) (magnitude_in t2' Inch)"
    using assms(3,4) by (rule min.mono)
  moreover from assms(1) have "weld_size_chain (min (magnitude_in t1 Inch) (magnitude_in t2 Inch)) = Some w"
    by (simp add: min_weld_size_eq split: if_splits)
  moreover from assms(2) have "weld_size_chain (min (magnitude_in t1' Inch) (magnitude_in t2' Inch)) = Some w'"
    by (simp add: min_weld_size_eq split: if_splits)
  ultimately show ?thesis by (rule weld_size_chain_mono)
qed

text \<open>C34: min_weld_size does not depend on which part is called part 1.\<close>

theorem min_weld_size_symmetric: "min_weld_size t2 t1 = min_weld_size t1 t2"
  by (simp add: min_weld_size_eq min.commute conj_comms)

section \<open>Witnesses\<close>

text \<open>
  A 5/16 in fillet weld, 4 in long on one side, joining a 1/4 in plate to a 1/2 in
  plate, both 58 ksi: the thin plate governs (its reduction factor is 0.9375...),
  and the LRFD result is \<open>0.75 \<cdot> 0.6 \<cdot> 58 \<cdot> 0.25 \<cdot> 4 = 26.1\<close> kip times \<open>(\<surd>2/2)/0.707\<close>.
\<close>

lemma weld_example_material:
  "weld_material_strength ''LRFD'' 5 (Quantity 4 Inch) 1 = Inr (19.6875 * sqrt 2)"
  by (simp add: weld_material_strength_eq)

lemma weld_example_rupture:
  "weld_rupture_strength ''LRFD'' 5 (Quantity 4 Inch) 1 (Quantity 0.25 Inch) (Quantity 58 Ksi)
     (Quantity 0.5 Inch) (Quantity 58 Ksi) = Inr (26.1 * (sqrt 2 / 2 / 0.707))"
  by (simp add: weld_rupture_strength_ok weld_material_strength_eq min_def)

lemma weld_example_rupture_thick:
  "weld_rupture_strength ''LRFD'' 6 (Quantity 4 Inch) 1 (Quantity 0.5 Inch) (Quantity 58 Ksi)
     (Quantity 0.5 Inch) (Quantity 58 Ksi) = Inr (23.625 * sqrt 2)"
  by (simp add: weld_rupture_strength_ok weld_material_strength_eq min_def)

theorem weld_rupture_strength_governing_witness:
  "weld_rupture_strength ''LRFD'' 5 (Quantity 4 Inch) 1 (Quantity 0.25 Inch) (Quantity 58 Ksi)
     (Quantity 0.5 Inch) (Quantity 58 Ksi) =
   bindE (weld_material_strength ''LRFD'' 5 (Quantity 4 Inch) 1) (\<lambda>w.
     Inr (w * min 1 (min (reduction 5 1 (Quantity 0.25 Inch) (Quantity 58 Ksi))
                          (reduction 5 1 (Quantity 0.5 Inch) (Quantity 58 Ksi)))))"
  by (rule weld_rupture_strength_governing) simp_all

text \<open>The same weld between two 3/4 in plates on both sides: the weld metal governs.\<close>

theorem weld_rupture_strength_weld_governs_witness:
  "weld_rupture_strength ''ASD'' 5 (Quantity 4 Inch) 2 (Quantity 0.75 Inch) (Quantity 58 Ksi)
     (Quantity 0.75 Inch) (Quantity 58 Ksi) = weld_material_strength ''ASD'' 5 (Quantity 4 Inch) 2"
  by (rule weld_rupture_strength_weld_governs) simp_all

text \<open>Three weld sides and an unknown method: UnboundLocalError, not ValueError.\<close>

theorem weld_rupture_strength_bad_sides_witness:
  "weld_rupture_strength ''XYZ'' 5 (Quantity 4 Inch) 3 (Quantity 0.25 Inch) (Quantity 58 Ksi)
     (Quantity 0.5 Inch) (Quantity 58 Ksi) = Inl UnboundLocalError"
  by (rule weld_rupture_strength_bad_sides) simp_all

text \<open>A base metal given as 0 ksi.\<close>

theorem weld_rupture_strength_zero_division_witness:
  "weld_rupture_strength ''LRFD'' 5 (Quantity 4 Inch) 1 (Quantity 0.25 Inch) (Quantity 0 Ksi)
     (Quantity 0.5 Inch) (Quantity 58 Ksi) = Inl ZeroDivisionError"
  by (rule weld_rupture_strength_zero_division) simp_all

theorem weld_rupture_le_material_witness:
  "weld_rupture_strength ''LRFD'' 5 (Quantity 4 Inch) 1 (Quantity 0.25 Inch) (Quantity 58 Ksi)
     (Quantity 0.5 Inch) (Quantity 58 Ksi) = Inr (26.1 * (sqrt 2 / 2 / 0.707))
   \<and> weld_material_strength ''LRFD'' 5 (Quantity 4 Inch) 1 = Inr (19.6875 * sqrt 2)
   \<and> 26.1 * (sqrt 2 / 2 / 0.707) \<le> 19.6875 * sqrt 2"
proof -
  have "0 \<le> 19.6875 * sqrt (2::real)" by simp
  with weld_example_rupture weld_example_material show ?thesis
    using weld_rupture_le_material [OF weld_example_rupture weld_example_material] by blast
qed

theorem weld_rupture_strength_throat_mismatch_witness:
  "weld_rupture_strength ''LRFD'' 5 (Quantity 4 Inch) 1 (Quantity 0.25 Inch) (Quantity 58 Ksi)
     (Quantity 0.5 Inch) (Quantity 58 Ksi) = Inr (26.1 * (sqrt 2 / 2 / 0.707))
   \<and> reduction 5 1 (Quantity 0.25 Inch) (Quantity 58 Ksi) < 1
   \<and> reduction 5 1 (Quantity 0.25 Inch) (Quantity 58 Ksi)
       \<le> reduction 5 1 (Quantity 0.5 Inch) (Quantity 58 Ksi)
   \<and> 26.1 * (sqrt 2 / 2 / 0.707) = design_factor ''LRFD'' 2 0.75
       * (0.6 * magnitude_in (Quantity 58 Ksi) Ksi * magnitude_in (Quantity 0.25 Inch) Inch
          * magnitude_in (Quantity 4 Inch) Inch) * (sqrt 2 / 2 / 0.707)"
proof -
  have r1: "reduction 5 1 (Quantity 0.25 Inch) (Quantity 58 Ksi) < 1" by simp
  have r12: "reduction 5 1 (Quantity 0.25 Inch) (Quantity 58 Ksi)
       \<le> reduction 5 1 (Quantity 0.5 Inch) (Quantity 58 Ksi)" by simp
  show ?thesis
    using weld_example_rupture r1 r12
      weld_rupture_strength_throat_mismatch [OF weld_example_rupture r1 r12] by blast
qed

text \<open>A negative thickness (an invalid input) still gets the 1/8 in size.\<close>

theorem min_weld_size_total_witness:
  "(\<exists>w \<in> {0.125, 0.1875, 0.25, 0.3125}. min_weld_size (Quantity (-0.5) Inch) (Quantity 1 Inch) = Inr (Some w))
   \<and> min_weld_size (Quantity (-0.5) Inch) (Quantity 1 Inch) = Inr (Some 0.125)"
proof -
  have "\<exists>w \<in> {0.125, 0.1875, 0.25, 0.3125}. min_weld_size (Quantity (-0.5) Inch) (Quantity 1 Inch) = Inr (Some w)"
    by (rule min_weld_size_total) simp_all
  moreover have "min_weld_size (Quantity (-0.5) Inch) (Quantity 1 Inch) = Inr (Some 0.125)"
    by (simp add: min_weld_size_eq)
  ultimately show ?thesis ..
qed

theorem min_weld_size_mono_witness:
  "min_weld_size (Quantity 0.3 Inch) (Quantity 0.6 Inch) = Inr (Some 0.1875)
   \<and> min_weld_size (Quantity 0.5 Inch) (Quantity 0.8 Inch) = Inr (Some 0.25)
   \<and> (0.1875::real) \<le> 0.25"
proof -
  have a: "min_weld_size (Quantity 0.3 Inch) (Quantity 0.6 Inch) = Inr (Some 0.1875)"
    by (simp add: min_weld_size_eq)
  have b: "min_weld_size (Quantity 0.5 Inch) (Quantity 0.8 Inch) = Inr (Some 0.25)"
    by (simp add: min_weld_size_eq)
  have "(0.1875::real) \<le> 0.25"
    by (rule min_weld_size_mono [OF a b]) simp_all
  with a b show ?thesis by blast
qed

theorem weld_rupture_strength_lesser_witness:
  "weld_rupture_strength ''LRFD'' 5 (Quantity 4 Inch) 1 (Quantity 0.25 Inch) (Quantity 58 Ksi)
     (Quantity 0.5 Inch) (Quantity 58 Ksi) =
   design_policy ''LRFD''
     (min (0.60 * 70 * (sqrt 2 / 2) * (5 / 16) * magnitude_in (Quantity 4 Inch) Inch * of_int 1)
       (min (0.6 * magnitude_in (Quantity 58 Ksi) Ksi * magnitude_in (Quantity 0.25 Inch) Inch
               * magnitude_in (Quantity 4 Inch) Inch * (sqrt 2 / 2 / 0.707))
            (0.6 * magnitude_in (Quantity 58 Ksi) Ksi * magnitude_in (Quantity 0.5 Inch) Inch
               * magnitude_in (Quantity 4 Inch) Inch * (sqrt 2 / 2 / 0.707))))
     (asd_factor WeldMaterial) (lrfd_factor WeldMaterial)"
  by (rule weld_rupture_strength_lesser) simp_all

theorem weld_rupture_strength_mono_witness:
  "weld_rupture_strength ''LRFD'' 5 (Quantity 4 Inch) 1 (Quantity 0.25 Inch) (Quantity 58 Ksi)
     (Quantity 0.5 Inch) (Quantity 58 Ksi) = Inr (26.1 * (sqrt 2 / 2 / 0.707))
   \<and> weld_rupture_strength ''LRFD'' 6 (Quantity 4 Inch) 1 (Quantity 0.5 Inch) (Quantity 58 Ksi)
     (Quantity 0.5 Inch) (Quantity 58 Ksi) = Inr (23.625 * sqrt 2)
   \<and> 26.1 * (sqrt 2 / 2 / 0.707) \<le> 23.625 * sqrt 2"
proof -
  have "26.1 * (sqrt 2 / 2 / 0.707) \<le> 23.625 * sqrt (2::real)"
    by (rule weld_rupture_strength_mono [OF weld_example_rupture weld_example_rupture_thick]) simp_all
  with weld_example_rupture weld_example_rupture_thick show ?thesis by blast
qed

end
