(* ===== verification/Spec2Isabelle.thy ===== *)
theory Spec2Isabelle
  imports Bolt ConnectedElement Weld
begin

text \<open>
  \<^bold>\<open>Steel connection limit states: a verification development.\<close>

  The repository (\<open>src/Steel/\<close>) is a library of stateless Python functions that compute
  the available strength of bolted and welded steel connections under the two AISC
  design philosophies, ASD (divide the nominal strength by a safety factor \<open>\<Omega>\<close>) and
  LRFD (multiply it by a resistance factor \<open>\<phi>\<close>).  Every function takes pint
  quantities, normalises each to inch or ksi with \<open>.to()\<close>, computes a nominal
  strength, and ends with an \<open>if design_method == "ASD" ... elif "LRFD" ... else raise
  ValueError\<close> chain.  There is no state: each component is a set of pure functions and
  the only interaction is by call (\<open>shear_strength_bolts\<close> and
  \<open>tensile_strength_bolts\<close> call \<open>nominal_fastener_strength\<close>;
  \<open>weld_rupture_strength\<close> calls \<open>weld_material_strength\<close>; everything calls pint).

  \<^bold>\<open>Modelling conventions.\<close>
  \<^item> Python floats are idealised as reals: literals denote their decimal values,
    \<open>math.pi\<close> is \<open>pi\<close>, \<open>math.sqrt(2)\<close> is \<open>sqrt 2\<close>; rounding is not modelled.
  \<^item> Exceptions are values: a function returns \<open>py_error + 'a\<close> (theory Prelude), with
    \<open>InvalidDesignMethod\<close> for the \<open>ValueError\<close> of the method chain,
    \<open>DimensionalityError\<close> for pint's conversion failure, \<open>ZeroDivisionError\<close> and
    \<open>UnboundLocalError\<close> for the Python runtime errors.  Fallible steps are sequenced in
    source order with \<open>bindE\<close>, so the first error raised is the one returned.
  \<^item> Results are magnitudes in kip (the code's ksi times square inches).

  \<^bold>\<open>Theories and what they model.\<close>
  \<^item> Prelude: errors, \<open>bindE\<close>, Python float division \<open>py_div\<close>, shared real lemmas
    (positive scaling, the bounds \<open>0.707 < \<surd>2/2 < 0.7072\<close>).
  \<^item> Units (spec_modelled: pint is a library the sources call): quantities, units,
    dimensions, SI factors and \<open>quantity_to\<close> (pint's \<open>Quantity.to\<close>); lemmas: the
    normal form of a conversion, and that physically equal quantities
    (\<open>same_quantity\<close>) convert alike.
  \<^item> DesignMethod (spec_modelled: the spec's DesignMethodPolicy and factor table, which
    the code inlines in every function): \<open>design_policy\<close>, \<open>design_policy_pair\<close>,
    \<open>asd_factor\<close>, \<open>lrfd_factor\<close>, and \<open>design_factor\<close> (the single factor a method
    applies).
  \<^item> Bolt (\<open>src/Steel/bolt.py\<close>): \<open>nominal_fastener_strength\<close>,
    \<open>shear_strength_bolts\<close>, \<open>bearing_strength_bolts\<close>, \<open>tearout_strength_bolts\<close>,
    \<open>tensile_strength_bolts\<close>.
  \<^item> ConnectedElement (\<open>src/Steel/connected_element.py\<close>):
    \<open>connected_elem_shear_yield_str\<close>, \<open>connected_elem_shear_rupture_str\<close>,
    \<open>connected_elem_tensile_yield_str\<close>, \<open>connected_elem_tensile_rupture_str\<close>.
  \<^item> Weld (\<open>src/Steel/weld.py\<close>): \<open>min_weld_size\<close> (a \<open>real option\<close>: the
    \<open>if/elif\<close> chain has no \<open>else\<close>), \<open>weld_material_strength\<close>,
    \<open>weld_rupture_strength\<close> (with its \<open>ZeroDivisionError\<close> and
    \<open>UnboundLocalError\<close> paths, both before its call of \<open>weld_material_strength\<close>).
  \<^item> this root theory: properties spanning components.
  Each definition keeps the Python function's name, parameter names and statement
  order: the \<open>.to()\<close> conversions in source order, the local variables as
  \<^theory_text>\<open>let\<close>s, the method chain with its own \<open>fos\<close>/\<open>str_reduction\<close>.

  \<^bold>\<open>What the lemmas show.\<close>
  \<^item> Normal forms (\<open>*_eq\<close>, not claims): each calculator is either
    \<open>DimensionalityError\<close> or the method chain applied to the nominal strength of the
    inputs' magnitudes in inch/ksi; \<open>*_Inr\<close> lemmas describe successful results.
  \<^item> Refinement (\<open>*_refines\<close>): each of the nine design-chain calculators implements
    the DesignMethodPolicy contract with the spec's factor table and nominal formula.
  \<^item> Weld rupture: the governing rule \<open>w \<cdot> min 1 (min r\<^sub>1 r\<^sub>2)\<close>; its refinement of
    the spec's contract "the lesser of weld metal and base metal rupture" (the design
    policy applied to the minimum of the weld-metal strength and each part's
    \<open>0.6 F\<^sub>u t L\<close>, the latter scaled by \<open>(\<surd>2/2)/0.707\<close>); weld metal governs for
    thick parts; the error paths; the bound by the weld-metal strength; monotonicity in
    weld size and part thickness; and the throat-factor mismatch (\<open>\<surd>2/2\<close> against
    \<open>0.707\<close>).
  \<^item> min_weld_size: total on lengths (never \<open>None\<close>), monotone, symmetric.  It
    returns inches while the strength functions take sixteenths; that interface gap is
    recorded as a finding (C9 shows the \<open>/16\<close> of the strength functions).
  \<^item> Per-component functional facts: part symmetry, tearout sign and when it governs
    bearing, rupture sign and monotonicity in the bolt count, tension = 5/3 shear,
    tensile rupture = \<open>U/0.6\<close> shear rupture, no-hole rupture = 0.75 yield.
  \<^item> Here: the invalid method is always rejected, dimension errors come first, results
    do not depend on the input units, LRFD = 1.5 ASD (1.503 for tensile yield).
  Every theorem with hypotheses has a \<open>*_witness\<close> applying it at concrete inputs.

  \<^bold>\<open>Bounds and fuel.\<close> The code has no loops or recursion, so no fuel or termination
  argument is needed: every definition is a non-recursive \<^theory_text>\<open>definition\<close> or
  \<^theory_text>\<open>fun\<close> by cases, and all of them evaluate by \<open>simp\<close> on concrete inputs.

  \<^bold>\<open>Plan.\<close> Modelled in order of importance: the bolt calculators (the most used
  limit states), the connected-element calculators, then the weld calculators (the
  only ones with data-dependent branching and runtime errors), then the properties
  spanning them here.  All three source files are modelled, and weld rupture is
  proved against the spec's abstract "lesser of weld and base metal" contract.  Left:
  the governing strength of a whole connection (the minimum over parts and limit
  states, which the spec leaves to the caller); the N-part generalisation the spec's
  design notes propose; monotonicity bounds for the remaining calculators.

  \<^bold>\<open>Not modelled.\<close> Floating-point rounding (floats are exact reals); pint's full
  registry (only the units in Units) and its compound result units (results are kip
  magnitudes); pint's registry identity: \<open>tearout_strength_bolts\<close>, both rupture
  calculators and the weld functions combine the caller's quantities with constants
  built on the module's own \<open>ureg\<close>, and pint raises ValueError when the caller used
  another registry; the model has one registry, so that error is outside it; the
  imported but unused numpy, pandas, seaborn and sympy.
\<close>

section \<open>Errors across the calculators\<close>

text \<open>
  C13: every calculator raises InvalidDesignMethod for a method other than "ASD" and
  "LRFD" once its inputs have the right dimensions (and, for weld rupture, once the
  side count and divisors pass): there is no silent default.
\<close>

theorem invalid_method_error:
  assumes "\<not> valid_method m"
    and "has_dim d Length" "has_dim ea Length" "has_dim eb Length" "has_dim ta Length"
      "has_dim tb Length" "has_dim la Length" "has_dim lb Length" "has_dim l Length"
      "has_dim ua Stress" "has_dim ub Stress"
  shows "shear_strength_bolts m d ua = Inl InvalidDesignMethod
    \<and> bearing_strength_bolts m d ta ua tb ub = Inl InvalidDesignMethod
    \<and> tearout_strength_bolts m d ea eb ta ua tb ub = Inl InvalidDesignMethod
    \<and> tensile_strength_bolts m d ua = Inl InvalidDesignMethod
    \<and> connected_elem_shear_yield_str m ta la ua tb lb ub = Inl InvalidDesignMethod
    \<and> connected_elem_shear_rupture_str m d n ta la ua tb lb ub = Inl InvalidDesignMethod
    \<and> connected_elem_tensile_yield_str m ta la ua tb lb ub = Inl InvalidDesignMethod
    \<and> connected_elem_tensile_rupture_str m d n sl ta la ua tb lb ub = Inl InvalidDesignMethod
    \<and> weld_material_strength m ws l s = Inl InvalidDesignMethod
    \<and> ((s = 1 \<or> s = 2) \<and> magnitude_in ua Ksi \<noteq> 0 \<and> magnitude_in ub Ksi \<noteq> 0 \<and> ws \<noteq> 0
       \<longrightarrow> weld_rupture_strength m ws l s ta ua tb ub = Inl InvalidDesignMethod)"
  using assms
  by (simp add: shear_strength_bolts_eq bearing_strength_bolts_eq tearout_strength_bolts_eq
      tensile_strength_bolts_eq connected_elem_shear_yield_str_eq connected_elem_shear_rupture_str_eq
      connected_elem_tensile_yield_str_eq connected_elem_tensile_rupture_str_eq
      weld_material_strength_eq weld_rupture_strength_ok design_policy_invalid
      design_policy_pair_invalid)

text \<open>
  C14: a thickness that is not a length makes every calculator that takes one raise
  DimensionalityError, whatever the design method, bolt count, weld size or side count:
  the conversions run before any other check.
\<close>

theorem dimension_error_first:
  assumes "\<not> has_dim ta Length"
  shows "bearing_strength_bolts m d ta ua tb ub = Inl DimensionalityError
    \<and> tearout_strength_bolts m d ea eb ta ua tb ub = Inl DimensionalityError
    \<and> connected_elem_shear_yield_str m ta la ya tb lb yb = Inl DimensionalityError
    \<and> connected_elem_shear_rupture_str m d n ta la ua tb lb ub = Inl DimensionalityError
    \<and> connected_elem_tensile_yield_str m ta la ya tb lb yb = Inl DimensionalityError
    \<and> connected_elem_tensile_rupture_str m d n sl ta la ua tb lb ub = Inl DimensionalityError
    \<and> min_weld_size ta tb = Inl DimensionalityError
    \<and> weld_rupture_strength m ws l s ta ua tb ub = Inl DimensionalityError"
  using assms
  by (simp add: bearing_strength_bolts_eq tearout_strength_bolts_eq
      connected_elem_shear_yield_str_eq connected_elem_shear_rupture_str_eq
      connected_elem_tensile_yield_str_eq connected_elem_tensile_rupture_str_eq
      min_weld_size_eq weld_rupture_strength_dims)

section \<open>Unit invariance\<close>

text \<open>
  C15: every calculator gives the same result (the same strengths or the same error)
  for inputs that are physically equal but written in different units, e.g. a
  diameter in millimetres or in inches: each one normalises with \<open>.to()\<close> first.
\<close>

theorem unit_invariance:
  assumes "same_quantity d d'" "same_quantity ea ea'" "same_quantity eb eb'"
    "same_quantity ta ta'" "same_quantity tb tb'" "same_quantity la la'" "same_quantity lb lb'"
    "same_quantity ua ua'" "same_quantity ub ub'" "same_quantity l l'"
  shows "shear_strength_bolts m d ua = shear_strength_bolts m d' ua'
    \<and> bearing_strength_bolts m d ta ua tb ub = bearing_strength_bolts m d' ta' ua' tb' ub'
    \<and> tearout_strength_bolts m d ea eb ta ua tb ub = tearout_strength_bolts m d' ea' eb' ta' ua' tb' ub'
    \<and> tensile_strength_bolts m d ua = tensile_strength_bolts m d' ua'
    \<and> connected_elem_shear_yield_str m ta la ua tb lb ub
        = connected_elem_shear_yield_str m ta' la' ua' tb' lb' ub'
    \<and> connected_elem_shear_rupture_str m d n ta la ua tb lb ub
        = connected_elem_shear_rupture_str m d' n ta' la' ua' tb' lb' ub'
    \<and> connected_elem_tensile_yield_str m ta la ua tb lb ub
        = connected_elem_tensile_yield_str m ta' la' ua' tb' lb' ub'
    \<and> connected_elem_tensile_rupture_str m d n sl ta la ua tb lb ub
        = connected_elem_tensile_rupture_str m d' n sl ta' la' ua' tb' lb' ub'
    \<and> min_weld_size ta tb = min_weld_size ta' tb'
    \<and> weld_material_strength m ws l s = weld_material_strength m ws l' s
    \<and> weld_rupture_strength m ws l s ta ua tb ub = weld_rupture_strength m ws l' s ta' ua' tb' ub'"
  unfolding strength_defs
  by (intro conjI;
      simp only: quantity_to_same_quantity [OF assms(1)] quantity_to_same_quantity [OF assms(2)]
        quantity_to_same_quantity [OF assms(3)] quantity_to_same_quantity [OF assms(4)]
        quantity_to_same_quantity [OF assms(5)] quantity_to_same_quantity [OF assms(6)]
        quantity_to_same_quantity [OF assms(7)] quantity_to_same_quantity [OF assms(8)]
        quantity_to_same_quantity [OF assms(9)] quantity_to_same_quantity [OF assms(10)])

section \<open>The two design methods\<close>

text \<open>
  C20: for every calculator and every input, the LRFD result is the ASD result times
  \<open>\<phi>\<Omega>\<close>: 1.5 for every limit state except tensile yield, where it is
  \<open>0.90 \<cdot> 1.67 = 1.503\<close>; the errors are the same under both methods.  So the spec's
  remark that the ratio is "not generally" fixed holds only for tensile yield.
\<close>

theorem lrfd_asd_ratio:
  "shear_strength_bolts ''LRFD'' d ua = map_sum id ((*) 1.5) (shear_strength_bolts ''ASD'' d ua)
   \<and> bearing_strength_bolts ''LRFD'' d ta ua tb ub
       = map_sum id (map_prod ((*) 1.5) ((*) 1.5)) (bearing_strength_bolts ''ASD'' d ta ua tb ub)
   \<and> tearout_strength_bolts ''LRFD'' d ea eb ta ua tb ub
       = map_sum id (map_prod ((*) 1.5) ((*) 1.5)) (tearout_strength_bolts ''ASD'' d ea eb ta ua tb ub)
   \<and> tensile_strength_bolts ''LRFD'' d ua = map_sum id ((*) 1.5) (tensile_strength_bolts ''ASD'' d ua)
   \<and> connected_elem_shear_yield_str ''LRFD'' ta la ya tb lb yb
       = map_sum id (map_prod ((*) 1.5) ((*) 1.5)) (connected_elem_shear_yield_str ''ASD'' ta la ya tb lb yb)
   \<and> connected_elem_shear_rupture_str ''LRFD'' d n ta la ua tb lb ub
       = map_sum id (map_prod ((*) 1.5) ((*) 1.5)) (connected_elem_shear_rupture_str ''ASD'' d n ta la ua tb lb ub)
   \<and> connected_elem_tensile_yield_str ''LRFD'' ta la ya tb lb yb
       = map_sum id (map_prod ((*) 1.503) ((*) 1.503)) (connected_elem_tensile_yield_str ''ASD'' ta la ya tb lb yb)
   \<and> connected_elem_tensile_rupture_str ''LRFD'' d n sl ta la ua tb lb ub
       = map_sum id (map_prod ((*) 1.5) ((*) 1.5)) (connected_elem_tensile_rupture_str ''ASD'' d n sl ta la ua tb lb ub)
   \<and> weld_material_strength ''LRFD'' ws l s = map_sum id ((*) 1.5) (weld_material_strength ''ASD'' ws l s)
   \<and> weld_rupture_strength ''LRFD'' ws l s ta ua tb ub
       = map_sum id ((*) 1.5) (weld_rupture_strength ''ASD'' ws l s ta ua tb ub)"
  by (intro conjI)
     (simp_all add: shear_strength_bolts_eq bearing_strength_bolts_eq tearout_strength_bolts_eq
       tensile_strength_bolts_eq connected_elem_shear_yield_str_eq connected_elem_shear_rupture_str_eq
       connected_elem_tensile_yield_str_eq connected_elem_tensile_rupture_str_eq
       weld_material_strength_eq weld_rupture_strength_def quantity_simps Let_def py_div_def)

section \<open>Witnesses\<close>

text \<open>An unknown method on well-formed inputs: every calculator rejects it.\<close>

theorem invalid_method_error_witness:
  "shear_strength_bolts ''XYZ'' (Quantity 0.75 Inch) (Quantity 58 Ksi) = Inl InvalidDesignMethod
   \<and> connected_elem_tensile_yield_str ''XYZ'' (Quantity 0.5 Inch) (Quantity 6 Inch) (Quantity 58 Ksi)
       (Quantity 0.5 Inch) (Quantity 6 Inch) (Quantity 58 Ksi) = Inl InvalidDesignMethod
   \<and> weld_rupture_strength ''XYZ'' 5 (Quantity 4 Inch) 1 (Quantity 0.5 Inch) (Quantity 58 Ksi)
       (Quantity 0.5 Inch) (Quantity 58 Ksi) = Inl InvalidDesignMethod"
  using invalid_method_error [where m = "''XYZ''" and d = "Quantity 0.75 Inch"
      and ea = "Quantity 1 Inch" and eb = "Quantity 1 Inch" and ta = "Quantity 0.5 Inch"
      and tb = "Quantity 0.5 Inch" and la = "Quantity 6 Inch" and lb = "Quantity 6 Inch"
      and l = "Quantity 4 Inch" and ua = "Quantity 58 Ksi" and ub = "Quantity 58 Ksi"
      and s = 1 and ws = 5]
  by (simp add: valid_method_def)

text \<open>A stress (58 ksi) passed where a thickness is expected.\<close>

theorem dimension_error_first_witness:
  "bearing_strength_bolts ''ASD'' (Quantity 0.75 Inch) (Quantity 58 Ksi) (Quantity 58 Ksi)
       (Quantity 0.5 Inch) (Quantity 58 Ksi) = Inl DimensionalityError
   \<and> min_weld_size (Quantity 58 Ksi) (Quantity 0.5 Inch) = Inl DimensionalityError"
  using dimension_error_first [where ta = "Quantity 58 Ksi" and m = "''ASD''"
      and d = "Quantity 0.75 Inch" and ua = "Quantity 58 Ksi" and tb = "Quantity 0.5 Inch"
      and ub = "Quantity 58 Ksi"]
  by simp

text \<open>A 19.05 mm bolt is a 3/4 in bolt, and 120000 psi is 120 ksi.\<close>

theorem unit_invariance_witness:
  "shear_strength_bolts ''LRFD'' (Quantity 19.05 Millimeter) (Quantity 120000 Psi)
     = shear_strength_bolts ''LRFD'' (Quantity 0.75 Inch) (Quantity 120 Ksi)
   \<and> min_weld_size (Quantity 12.7 Millimeter) (Quantity 1 Foot)
     = min_weld_size (Quantity 0.5 Inch) (Quantity 12 Inch)"
proof -
  have d: "same_quantity (Quantity 19.05 Millimeter) (Quantity 0.75 Inch)"
    and u: "same_quantity (Quantity 120000 Psi) (Quantity 120 Ksi)"
    and ta: "same_quantity (Quantity 12.7 Millimeter) (Quantity 0.5 Inch)"
    and tb: "same_quantity (Quantity 1 Foot) (Quantity 12 Inch)"
    by (simp_all add: same_quantity_def)
  note inv = unit_invariance [OF d same_quantity_refl same_quantity_refl ta tb
      same_quantity_refl same_quantity_refl u same_quantity_refl same_quantity_refl]
  show ?thesis using inv by blast
qed

end
